theory Spec2Isabelle
  imports Complex_Main
begin

section \<open>Trial generation and target recomputation of MotorNet/tasks/tasks.py\<close>

text \<open>
  Numbers of the source that are floating-point values are modelled as \<^typ>\<open>real\<close>,
  Python integers as \<^typ>\<open>int\<close> and array extents as \<^typ>\<open>nat\<close>. A tensor of rank
  three is a list (batch) of lists (time) of lists (features). Exceptions of the source
  are values of the type \<open>error\<close>; a function that may raise returns \<open>error + 'a\<close>.
  The global random number generator of NumPy is made explicit: every function that
  draws takes the values drawn as an argument. The plant and the controller are
  collaborators outside the source file: the plant is a record of the attributes and
  functions that the tasks use, the controller a function argument.
\<close>

subsection \<open>Values, errors and NumPy primitives\<close>

datatype error = AttributeError | ValueError | IndexError | KeyError

type_synonym vec = "real list"
type_synonym mat = "real list list"
type_synonym tensor3 = "real list list list"

text \<open>Sequencing of computations that may raise: the first exception ends the run.\<close>

definition and_then :: "error + 'a \<Rightarrow> ('a \<Rightarrow> error + 'b) \<Rightarrow> error + 'b" where
  "and_then m f = (case m of Inl e \<Rightarrow> Inl e | Inr x \<Rightarrow> f x)"

text \<open>\<open>for i in idx: body\<close> over a state that the body updates.\<close>

fun for_each :: "(nat \<Rightarrow> 's \<Rightarrow> error + 's) \<Rightarrow> nat list \<Rightarrow> 's \<Rightarrow> error + 's" where
  "for_each body [] s = Inr s"
| "for_each body (i # idx) s = and_then (body i s) (for_each body idx)"

text \<open>Python's \<open>int(x)\<close> on a float truncates towards zero.\<close>

definition py_int :: "real \<Rightarrow> int" where
  "py_int x = (if 0 \<le> x then \<lfloor>x\<rfloor> else \<lceil>x\<rceil>)"

text \<open>
  The position that a bound \<open>k\<close> of a slice \<open>a[k:]\<close> or \<open>a[:k]\<close> denotes in a sequence
  of length \<open>n\<close>: a negative bound counts from the end, and bounds are clipped.
\<close>

definition py_slice_index :: "nat \<Rightarrow> int \<Rightarrow> nat" where
  "py_slice_index n k = (if k < 0 then nat (int n + k) else min (nat k) n)"

text \<open>\<open>a[lo:hi] = v\<close> for positions \<open>lo\<close>, \<open>hi\<close>: every element of the slice becomes \<open>v\<close>.\<close>

definition assign_rows :: "nat \<Rightarrow> nat \<Rightarrow> 'a \<Rightarrow> 'a list \<Rightarrow> 'a list" where
  "assign_rows lo hi v a = map (\<lambda>t. if lo \<le> t \<and> t < hi then v else a ! t) [0..<length a]"

text \<open>\<open>np.zeros(k)\<close>, \<open>np.ones(k)\<close> and \<open>np.zeros((k, w))\<close>: a negative extent is rejected.\<close>

definition np_zeros :: "int \<Rightarrow> error + vec" where
  "np_zeros k = (if k < 0 then Inl ValueError else Inr (replicate (nat k) 0))"

definition np_ones :: "int \<Rightarrow> error + vec" where
  "np_ones k = (if k < 0 then Inl ValueError else Inr (replicate (nat k) 1))"

definition np_zeros2 :: "int \<Rightarrow> nat \<Rightarrow> error + mat" where
  "np_zeros2 k w = (if k < 0 then Inl ValueError else Inr (replicate (nat k) (replicate w 0)))"

text \<open>
  \<open>np.squeeze\<close> of a matrix drops every axis of extent one. The result is used as a
  matrix; \<open>None\<close> stands for a result of lower rank, which the concatenation that
  follows in the source rejects.
\<close>

definition np_squeeze :: "mat \<Rightarrow> mat option" where
  "np_squeeze m = (if length m = 1 \<or> list_ex (\<lambda>row. length row = 1) m then None else Some m)"

text \<open>\<open>np.concatenate([a, b], axis=1)\<close> of two matrices: the row counts must agree.\<close>

definition np_concatenate_axis1 :: "mat \<Rightarrow> mat \<Rightarrow> error + mat" where
  "np_concatenate_axis1 a b =
     (if length a \<noteq> length b then Inl ValueError else Inr (map2 (@) a b))"

text \<open>\<open>np.repeat(v, k)\<close> and \<open>tf.repeat(m, k, axis=0)\<close>: each element \<open>k\<close> times in a row.\<close>

definition np_repeat :: "'a list \<Rightarrow> nat \<Rightarrow> 'a list" where
  "np_repeat v k = concat (map (replicate k) v)"

text \<open>\<open>tf.stack(values, axis=0)\<close>: an empty list of values is rejected.\<close>

definition tf_stack :: "mat list \<Rightarrow> error + tensor3" where
  "tf_stack values = (if values = [] then Inl ValueError else Inr values)"

text \<open>
  \<open>np.random.uniform(low, high)\<close> is \<open>low + (high - low) * r\<close> for the generator's next
  sample \<open>r\<close> from the half-open unit interval; \<open>np.random.rand()\<close> is such a sample.
\<close>

definition unit_sample :: "real \<Rightarrow> bool" where
  "unit_sample r = (0 \<le> r \<and> r < 1)"

definition np_random_uniform :: "real \<Rightarrow> real \<Rightarrow> real \<Rightarrow> real" where
  "np_random_uniform low high r = low + (high - low) * r"

text \<open>
  The values that one call of \<open>generate\<close> draws, in the order of the source:
  the indices of \<open>np.random.randint\<close> in \<open>get_initial_state\<close>, the states of the k-th
  call of \<open>plant.draw_random_uniform_states\<close>, and for trial i the sample behind
  \<open>np.random.uniform\<close>, the index \<open>np.random.randint(0, 5)\<close> and the two samples of
  \<open>np.random.rand()\<close>.
\<close>

record rng =
  initial_index :: "nat list"
  goal_states :: "nat \<Rightarrow> mat"
  delay_sample :: "nat \<Rightarrow> real"
  prob_index :: "nat \<Rightarrow> nat"
  catch_sample :: "nat \<Rightarrow> real"
  pert_sample :: "nat \<Rightarrow> real"

text \<open>\<open>idx\<close> is a possible value of \<open>np.random.randint(0, high, size)\<close>.\<close>

definition randint_outcome :: "nat \<Rightarrow> nat \<Rightarrow> nat list \<Rightarrow> bool" where
  "randint_outcome high count idx = (length idx = count \<and> list_all (\<lambda>k. k < high) idx)"

subsection \<open>Tensor operations of TensorFlow\<close>

text \<open>
  The operations act elementwise on tensors of equal shape. What TensorFlow does with
  shapes that differ (broadcast or reject) is outside the model: the theorems on
  \<open>recompute_targets\<close> assume tensors of matching shapes.
\<close>

definition tmap :: "('a \<Rightarrow> 'b) \<Rightarrow> 'a list list list \<Rightarrow> 'b list list list" where
  "tmap f x = map (map (map f)) x"

definition tmap2 ::
  "('a \<Rightarrow> 'b \<Rightarrow> 'c) \<Rightarrow> 'a list list list \<Rightarrow> 'b list list list \<Rightarrow> 'c list list list" where
  "tmap2 f x y = map2 (map2 (map2 f)) x y"

text \<open>\<open>x[:, :, a:b]\<close> and \<open>x[:, :, k]\<close>.\<close>

definition slice_last :: "nat \<Rightarrow> nat \<Rightarrow> 'a list list list \<Rightarrow> 'a list list list" where
  "slice_last a b x = map (map (\<lambda>v. take (b - a) (drop a v))) x"

definition index_last :: "nat \<Rightarrow> 'a list list list \<Rightarrow> 'a list list" where
  "index_last k x = map (map (\<lambda>v. v ! k)) x"

definition tf_reduce_sum_axis2 :: "tensor3 \<Rightarrow> mat" where
  "tf_reduce_sum_axis2 x = map (map sum_list) x"

definition tf_sqrt :: "mat \<Rightarrow> mat" where
  "tf_sqrt x = map (map sqrt) x"

definition tf_expand_dims_axis2 :: "mat \<Rightarrow> tensor3" where
  "tf_expand_dims_axis2 x = map (map (\<lambda>d. [d])) x"

text \<open>\<open>tf.tile(x, [1, 1, 2])\<close>.\<close>

definition tf_tile_1_1_2 :: "tensor3 \<Rightarrow> tensor3" where
  "tf_tile_1_1_2 x = map (map (\<lambda>v. v @ v)) x"

definition tf_zeros_like :: "tensor3 \<Rightarrow> tensor3" where
  "tf_zeros_like x = tmap (\<lambda>_. 0) x"

definition tf_concat_axis2 :: "tensor3 \<Rightarrow> tensor3 \<Rightarrow> tensor3" where
  "tf_concat_axis2 x y = map2 (map2 (@)) x y"

definition tf_less_equal :: "tensor3 \<Rightarrow> real \<Rightarrow> bool list list list" where
  "tf_less_equal x c = tmap (\<lambda>v. v \<le> c) x"

definition tf_where :: "bool list list list \<Rightarrow> tensor3 \<Rightarrow> tensor3 \<Rightarrow> tensor3" where
  "tf_where c x y = tmap2 (\<lambda>b (u, v). if b then u else v) c (tmap2 Pair x y)"

definition tf_equal2 :: "mat \<Rightarrow> real \<Rightarrow> bool list list" where
  "tf_equal2 x c = map (map (\<lambda>v. v = c)) x"

text \<open>\<open>tf.where(c, k, y)\<close> for a condition and a tensor of rank two and a scalar \<open>k\<close>.\<close>

definition tf_where2_const :: "bool list list \<Rightarrow> real \<Rightarrow> mat \<Rightarrow> mat" where
  "tf_where2_const c k y = map2 (map2 (\<lambda>b v. if b then k else v)) c y"

subsection \<open>Timing sampling\<close>

text \<open>\<open>generate_delay_time(delay_min, delay_max, delay_mode)\<close>; \<open>r\<close> is the sample drawn.\<close>

definition generate_delay_time :: "real \<Rightarrow> real \<Rightarrow> string \<Rightarrow> real \<Rightarrow> error + int" where
  "generate_delay_time delay_min delay_max delay_mode r =
     (if delay_mode = ''random'' then Inr (py_int (np_random_uniform delay_min delay_max r))
      else if delay_mode = ''noDelayInput'' then Inr (py_int 0)
      else Inl AttributeError)"

subsection \<open>The plant and the base class \<open>Task\<close>\<close>

text \<open>
  Of the plant the tasks use the attribute \<open>space_dim\<close> and the functions
  \<open>joint2cartesian\<close> and \<open>state2target\<close>. \<open>joint2cartesian\<close> maps each joint state of a
  batch to its cartesian state.
\<close>

record plant =
  space_dim :: nat
  joint2cartesian :: "vec \<Rightarrow> vec"

text \<open>
  Modelled from the spec: \<open>plant.state2target(state, n_timesteps)\<close> is not in the source
  file; the spec describes its result as the cartesian state of each trial repeated for
  the whole trial.
\<close>

definition state2target :: "mat \<Rightarrow> nat \<Rightarrow> tensor3" where
  "state2target state n_timesteps = map (replicate n_timesteps) state"

text \<open>
  The attributes of a task that the functions below read. The base class sets the first
  two; the constructors of the delayed and of the load task add the others (a step count
  where the keyword argument is in milliseconds), and each generator reads its own.
\<close>

record task =
  initial_joint_state :: "mat option"
  n_initial_joint_states :: "nat option"

record timed_task = task +
  bump_length :: int
  bump_height :: real
  delay_range :: "real \<times> real"
  num_target :: nat
  fixation_time :: int

text \<open>
  The argument \<open>initial_joint_state\<close> of \<open>Task.__init__\<close> after \<open>np.array\<close>: an array of
  rank one or of rank two.
\<close>

datatype joint_state_arg = Vector vec | Matrix mat

definition Task_init :: "joint_state_arg option \<Rightarrow> task" where
  "Task_init arg =
     (case arg of
        None \<Rightarrow> \<lparr>initial_joint_state = None, n_initial_joint_states = None\<rparr>
      | Some a \<Rightarrow>
          let pool = (case a of Vector v \<Rightarrow> [v] | Matrix m \<Rightarrow> m)
          in \<lparr>initial_joint_state = Some pool, n_initial_joint_states = Some (length pool)\<rparr>)"

text \<open>
  \<open>Task.get_initial_state(batch_size)\<close>. \<open>controller\<close> stands for
  \<open>self.controller.get_initial_state\<close>, which receives \<open>batch_size\<close> and \<open>inputs\<close>;
  \<open>idx\<close> is the value of \<open>np.random.randint(0, n_initial_joint_states, batch_size)\<close>, which
  rejects an empty range.
\<close>

definition get_initial_state ::
  "('a task_scheme) \<Rightarrow> (nat \<Rightarrow> mat option \<Rightarrow> 's) \<Rightarrow> nat \<Rightarrow> nat list \<Rightarrow> error + 's" where
  "get_initial_state self controller batch_size idx =
     (case initial_joint_state self of
        None \<Rightarrow> Inr (controller batch_size None)
      | Some pool \<Rightarrow>
          if n_initial_joint_states self = Some 0 then Inl ValueError
          else Inr (controller batch_size (Some (map (\<lambda>k. pool ! k) idx))))"

text \<open>\<open>init_states[0][0, :]\<close>: the first joint state of the batch.\<close>

definition first_joint_state :: "mat list \<Rightarrow> error + vec" where
  "first_joint_state init_states =
     (case init_states of
        [] \<Rightarrow> Inl IndexError
      | joint # _ \<Rightarrow> (case joint of [] \<Rightarrow> Inl IndexError | row # _ \<Rightarrow> Inr row))"

subsection \<open>\<open>TaskStaticTarget\<close> and \<open>TaskStaticTargetWithPerturbations\<close>\<close>

definition generate_StaticTarget ::
  "('a task_scheme) \<Rightarrow> plant \<Rightarrow> (nat \<Rightarrow> mat option \<Rightarrow> mat list) \<Rightarrow> nat \<Rightarrow> nat \<Rightarrow> rng
     \<Rightarrow> error + (tensor3 \<times> tensor3 \<times> mat list)" where
  "generate_StaticTarget self plant controller batch_size n_timesteps rng =
     and_then (get_initial_state self controller batch_size (initial_index rng)) (\<lambda>init_states.
       let goal_states = goal_states rng 0;
           targets = state2target (map (joint2cartesian plant) goal_states) n_timesteps
       in Inr (slice_last 0 (space_dim plant) targets, targets, init_states))"

definition generate_StaticTargetWithPerturbations ::
  "('a task_scheme) \<Rightarrow> plant \<Rightarrow> (nat \<Rightarrow> mat option \<Rightarrow> mat list) \<Rightarrow> nat \<Rightarrow> nat \<Rightarrow> rng
     \<Rightarrow> error + (tensor3 \<times> tensor3 \<times> mat list)" where
  "generate_StaticTargetWithPerturbations self plant controller batch_size n_timesteps rng =
     and_then (get_initial_state self controller batch_size (initial_index rng)) (\<lambda>init_states.
       let goal_states = goal_states rng 0;
           targets = state2target (map (joint2cartesian plant) goal_states) n_timesteps;
           perturbations = replicate batch_size (replicate n_timesteps [5, 5]);
           inputs = tf_concat_axis2 (slice_last 0 (space_dim plant) targets) perturbations
       in Inr (inputs, targets, init_states))"

subsection \<open>\<open>TaskDelayedReach\<close>\<close>

text \<open>
  The body of the loop over the trials; the state is \<open>temp_inputs\<close> and \<open>targets\<close>.
\<close>

definition DelayedReach_body ::
  "timed_task \<Rightarrow> nat \<Rightarrow> vec \<Rightarrow> rng \<Rightarrow> nat \<Rightarrow> mat list \<times> tensor3
     \<Rightarrow> error + (mat list \<times> tensor3)" where
  "DelayedReach_body self n_timesteps center rng i st =
     (case st of (temp_inputs, targets) \<Rightarrow>
      and_then (generate_delay_time (fst (delay_range self)) (snd (delay_range self))
                  ''random'' (delay_sample rng i)) (\<lambda>delay_time.
      and_then (np_zeros delay_time) (\<lambda>z1.
      and_then (np_ones (bump_length self)) (\<lambda>o1.
      and_then (np_zeros (int n_timesteps - delay_time - bump_length self)) (\<lambda>z2.
        let bump = z1 @ map (\<lambda>x. x * bump_height self) o1 @ z2
        in if length targets \<le> i then Inl IndexError
           else case np_squeeze (map (take 2) (targets ! i)) of
                  None \<Rightarrow> Inl ValueError
                | Some goal_pos \<Rightarrow>
                    and_then (np_concatenate_axis1 goal_pos (map (\<lambda>b. [b]) bump)) (\<lambda>inp.
                      Inr (temp_inputs @ [inp],
                           targets[i := assign_rows 0 (nat delay_time) center (targets ! i)])))))))"

definition generate_DelayedReach ::
  "timed_task \<Rightarrow> plant \<Rightarrow> (nat \<Rightarrow> mat option \<Rightarrow> mat list) \<Rightarrow> nat \<Rightarrow> nat \<Rightarrow> rng
     \<Rightarrow> error + (tensor3 \<times> tensor3 \<times> mat list)" where
  "generate_DelayedReach self plant controller batch_size n_timesteps rng =
     and_then (get_initial_state self controller batch_size (initial_index rng)) (\<lambda>init_states.
     and_then (first_joint_state init_states) (\<lambda>joint0.
       let center = joint2cartesian plant joint0;
           goal_states = goal_states rng 0;
           targets = state2target (map (joint2cartesian plant) goal_states) n_timesteps
       in and_then (for_each (DelayedReach_body self n_timesteps center rng)
                      [0..<batch_size] ([], targets)) (\<lambda>(temp_inputs, targets).
          and_then (tf_stack temp_inputs) (\<lambda>inputs.
            Inr (inputs, targets, init_states)))))"

text \<open>
  \<open>recompute_targets\<close>; \<open>outputs\<close> is the dictionary of the forward pass.
\<close>

definition recompute_targets_DelayedReach ::
  "tensor3 \<Rightarrow> tensor3 \<Rightarrow> (string \<rightharpoonup> tensor3) \<Rightarrow> error + tensor3" where
  "recompute_targets_DelayedReach inputs targets outputs =
     (case outputs ''cartesian position'' of
        None \<Rightarrow> Inl KeyError
      | Some cartesian_pos \<Rightarrow>
          let dist = tf_tile_1_1_2 (tf_expand_dims_axis2 (tf_sqrt (tf_reduce_sum_axis2
                       (tmap (\<lambda>v. v ^ 2)
                          (tmap2 (-) (slice_last 0 2 cartesian_pos) (slice_last 0 2 targets))))));
              cartesian_pos_no_vel =
                tf_concat_axis2 (slice_last 0 2 cartesian_pos) (tf_zeros_like dist);
              dist = tf_concat_axis2 dist (tf_zeros_like dist)
          in Inr (tf_where (tf_less_equal dist 0.1) cartesian_pos_no_vel targets))"

subsection \<open>\<open>TaskDelayedMultiReach\<close>\<close>

text \<open>\<open>a[k]\<close> for a Python integer \<open>k\<close>: a negative index counts from the end.\<close>

definition py_index :: "'a list \<Rightarrow> int \<Rightarrow> error + 'a" where
  "py_index a k =
     (let n = int (length a); j = (if k < 0 then n + k else k)
      in if 0 \<le> j \<and> j < n then Inr (a ! nat j) else Inl IndexError)"

text \<open>\<open>a[lo:lo + len(rows)] = rows\<close>.\<close>

definition assign_slice :: "nat \<Rightarrow> 'a list \<Rightarrow> 'a list \<Rightarrow> 'a list" where
  "assign_slice lo rows a =
     map (\<lambda>t. if lo \<le> t \<and> t < lo + length rows then rows ! (t - lo) else a ! t) [0..<length a]"

text \<open>\<open>np.concatenate(ms, axis=1)\<close> of a list of matrices with equally many rows.\<close>

definition np_concatenate_axis1_list :: "mat list \<Rightarrow> error + mat" where
  "np_concatenate_axis1_list ms =
     (case ms of
        [] \<Rightarrow> Inl ValueError
      | m # _ \<Rightarrow>
          if list_all (\<lambda>m'. length m' = length m) ms
          then Inr (map (\<lambda>t. concat (map (\<lambda>m'. m' ! t) ms)) [0..<length m])
          else Inl ValueError)"

text \<open>
  The loop that fills \<open>target_list\<close>, here a list over the targets of tensors of shape
  (batch, time, 4). The assignment into the array of zeros rejects a tensor of another
  shape (the broadcast of a single state is not modelled).
\<close>

definition MultiReach_target_list ::
  "plant \<Rightarrow> nat \<Rightarrow> nat \<Rightarrow> nat \<Rightarrow> rng \<Rightarrow> error + tensor3 list" where
  "MultiReach_target_list plant batch_size n_timesteps n_targets rng =
     (let target_list =
            map (\<lambda>tg. state2target (map (joint2cartesian plant) (goal_states rng tg)) n_timesteps)
              [0..<n_targets]
      in if list_all (\<lambda>x. length x = batch_size
                          \<and> list_all (list_all (\<lambda>c. length c = 4)) x) target_list
         then Inr target_list else Inl ValueError)"

text \<open>
  The body of the loop over the trials. Two subscripts of the source are floating-point
  values (sums with \<open>self.delay_range[1]\<close>). \<open>float_index\<close> is what NumPy makes of such a
  subscript: releases before 1.12 truncate it (\<open>index_truncating\<close>), later releases
  reject it (\<open>index_strict\<close>).
\<close>

definition index_truncating :: "real \<Rightarrow> error + int" where
  "index_truncating x = Inr (py_int x)"

definition index_strict :: "real \<Rightarrow> error + int" where
  "index_strict x = Inl IndexError"

definition DelayedMultiReach_body ::
  "(real \<Rightarrow> error + int) \<Rightarrow> timed_task \<Rightarrow> nat \<Rightarrow> vec \<Rightarrow> tensor3 list \<Rightarrow> rng \<Rightarrow> nat
     \<Rightarrow> mat list \<times> tensor3 \<Rightarrow> error + (mat list \<times> tensor3)" where
  "DelayedMultiReach_body float_index self n_timesteps center target_list rng i st =
     (case st of (temp_inputs, targets) \<Rightarrow>
      let num_target = num_target self;
          delay_max = snd (delay_range self);
          n = real n_timesteps;
          bl = real_of_int (bump_length self)
      in
      and_then (generate_delay_time (fst (delay_range self)) delay_max
                  ''random'' (delay_sample rng i)) (\<lambda>delay_time.
      and_then (np_zeros delay_time) (\<lambda>z1.
      and_then (np_ones (bump_length self)) (\<lambda>o1.
      and_then (np_zeros (int (num_target * n_timesteps)
                            + py_int (delay_max - real_of_int delay_time))) (\<lambda>z2.
        let bump = replicate n_timesteps 0 @ z1 @ map (\<lambda>x. x * bump_height self) o1 @ z2;
            goal_pos = map (\<lambda>tr. np_squeeze (map (take 2) (target_list ! tr ! i))) [0..<num_target]
        in if None \<in> set goal_pos then Inl ValueError else
      and_then (np_concatenate_axis1_list (map the goal_pos)) (\<lambda>input_tensor.
        let input_tensor = np_repeat input_tensor num_target
        in
      and_then (np_zeros2 (py_int (delay_max + bl)) (2 * num_target)) (\<lambda>zd.
        let input_tensor = replicate n_timesteps (replicate (2 * num_target) 0) @ zd @ input_tensor;
            input_tensor = assign_rows 0 n_timesteps (np_repeat (take 2 center) num_target) input_tensor
        in
      and_then (float_index (n + delay_max + bl + 1)) (\<lambda>k.
      and_then (py_index input_tensor k) (\<lambda>first_target.
      and_then (float_index (n + delay_max + bl)) (\<lambda>stop.
        let input_tensor = assign_rows n_timesteps (py_slice_index (length input_tensor) stop)
                             first_target input_tensor
        in
      and_then (np_concatenate_axis1 input_tensor (map (\<lambda>b. [b]) bump)) (\<lambda>inp.
        let d = nat delay_time;
            sequence_time = length (targets ! i);
            trial = assign_rows 0 n_timesteps center (targets ! i);
            trial = assign_rows n_timesteps (n_timesteps + d) center trial;
            goals = concat (map (\<lambda>tr. target_list ! tr ! i) [0..<num_target])
        in if min sequence_time (n_timesteps + d + num_target * n_timesteps)
                - min sequence_time (n_timesteps + d) \<noteq> length goals
           then Inl ValueError
           else
        let trial = assign_slice (n_timesteps + d) goals trial
        in if n_timesteps = 0 then Inl IndexError
           else
        let trial = assign_rows (d + num_target * n_timesteps) sequence_time
                      (last target_list ! i ! 0) trial
        in Inr (temp_inputs @ [inp], targets[i := trial]))))))))))))"

definition generate_DelayedMultiReach ::
  "(real \<Rightarrow> error + int) \<Rightarrow> timed_task \<Rightarrow> plant \<Rightarrow> (nat \<Rightarrow> mat option \<Rightarrow> mat list)
     \<Rightarrow> nat \<Rightarrow> nat \<Rightarrow> rng \<Rightarrow> error + (tensor3 \<times> tensor3 \<times> mat list)" where
  "generate_DelayedMultiReach float_index self plant controller batch_size n_timesteps rng =
     and_then (get_initial_state self controller batch_size (initial_index rng)) (\<lambda>init_states.
     and_then (first_joint_state init_states) (\<lambda>joint0.
       let center = joint2cartesian plant joint0;
           num_target = num_target self
       in
     and_then (MultiReach_target_list plant batch_size n_timesteps num_target rng) (\<lambda>target_list.
       let sequence_time = py_int (real ((num_target + 1) * n_timesteps)
                                     + snd (delay_range self) + real_of_int (bump_length self))
       in
     and_then (np_zeros2 sequence_time 4) (\<lambda>zeros.
     and_then (for_each (DelayedMultiReach_body float_index self n_timesteps center target_list rng)
                 [0..<batch_size] ([], replicate batch_size zeros)) (\<lambda>(temp_inputs, targets).
     and_then (tf_stack temp_inputs) (\<lambda>inputs.
       Inr (inputs, targets, init_states)))))))"

subsection \<open>\<open>TaskLoadProbability\<close>\<close>

definition prob_array :: vec where
  "prob_array = [0, 0.25, 0.5, 0.75, 1]"

text \<open>The choice \<open>pert\<close> of the perturbed load, from the second sample of a trial.\<close>

definition LoadProbability_pert :: "real \<Rightarrow> real \<Rightarrow> real" where
  "LoadProbability_pert prob r = (if r \<ge> prob then 0 else - 2)"

text \<open>\<open>center + np.array([...])\<close> for two vectors of equal length.\<close>

definition np_add :: "vec \<Rightarrow> vec \<Rightarrow> error + vec" where
  "np_add a b = (if length a = length b then Inr (map2 (+) a b) else Inl ValueError)"

text \<open>
  One pass of the loop over the trials: from the row \<open>targets[i]\<close> to the rows that the
  pass stores in \<open>inputs[i]\<close> and \<open>targets[i]\<close>.
\<close>

definition LoadProbability_trial ::
  "timed_task \<Rightarrow> nat \<Rightarrow> vec \<Rightarrow> rng \<Rightarrow> nat \<Rightarrow> mat \<Rightarrow> error + (mat \<times> mat)" where
  "LoadProbability_trial self n_timesteps center rng i targets_i =
     (let input_1 = replicate n_timesteps 0;
          input_2 = replicate n_timesteps 0;
          perturbation = replicate n_timesteps [0, - 1]
      in
      and_then (generate_delay_time (fst (delay_range self)) (snd (delay_range self))
                  ''random'' (delay_sample rng i)) (\<lambda>delay_time.
        let pert_time = delay_time + fixation_time self;
            prob = prob_array ! prob_index rng i;
            shown = py_slice_index n_timesteps (fixation_time self + 1);
            onset = py_slice_index n_timesteps pert_time
        in if catch_sample rng i \<ge> 0.2 then
             let targets_i = assign_rows 0 onset center targets_i;
                 pert = LoadProbability_pert prob (pert_sample rng i);
                 input_1 = assign_rows shown n_timesteps prob input_1;
                 input_2 = assign_rows shown n_timesteps (1 - prob) input_2;
                 perturbation = map (\<lambda>t. if onset \<le> t then (perturbation ! t)[1 := pert]
                                          else perturbation ! t) [0..<n_timesteps]
             in Inr (map (\<lambda>t. [input_1 ! t, input_2 ! t] @ perturbation ! t) [0..<n_timesteps],
                     targets_i)
           else
             let targets_i = assign_rows 0 n_timesteps center targets_i;
                 input_1 = assign_rows shown n_timesteps prob input_1;
                 input_2 = assign_rows shown n_timesteps (1 - prob) input_2
             in Inr (map (\<lambda>t. [input_1 ! t, input_2 ! t] @ perturbation ! t) [0..<n_timesteps],
                     targets_i)))"

text \<open>The body of the loop over the trials; the state is \<open>inputs\<close> and \<open>targets\<close>.\<close>

definition LoadProbability_body ::
  "timed_task \<Rightarrow> nat \<Rightarrow> vec \<Rightarrow> rng \<Rightarrow> nat \<Rightarrow> tensor3 \<times> tensor3
     \<Rightarrow> error + (tensor3 \<times> tensor3)" where
  "LoadProbability_body self n_timesteps center rng i st =
     (case st of (inputs, targets) \<Rightarrow>
      and_then (LoadProbability_trial self n_timesteps center rng i (targets ! i))
        (\<lambda>(inputs_i, targets_i). Inr (inputs[i := inputs_i], targets[i := targets_i])))"

definition generate_LoadProbability ::
  "timed_task \<Rightarrow> plant \<Rightarrow> (nat \<Rightarrow> mat option \<Rightarrow> mat list) \<Rightarrow> nat \<Rightarrow> nat \<Rightarrow> rng
     \<Rightarrow> error + (tensor3 \<times> tensor3 \<times> mat list)" where
  "generate_LoadProbability self plant controller batch_size n_timesteps rng =
     and_then (get_initial_state self controller batch_size (initial_index rng)) (\<lambda>init_states.
     and_then (first_joint_state init_states) (\<lambda>joint0.
       let center = joint2cartesian plant joint0
       in
     and_then (np_add center [- 0.028279, - 0.042601, 0, 0]) (\<lambda>goal_state.
       let targets = replicate batch_size (replicate n_timesteps goal_state);
           inputs = replicate batch_size (replicate n_timesteps [0, 0, 0, 0])
       in
     and_then (for_each (LoadProbability_body self n_timesteps center rng)
                 [0..<batch_size] (inputs, targets)) (\<lambda>(inputs, targets).
       Inr (inputs, targets, init_states)))))"

text \<open>
  \<open>recompute_targets\<close>; the argument \<open>inputs\<close> is the tensor \<open>inputs[0]\<close> of the source.
\<close>

definition recompute_targets_LoadProbability ::
  "tensor3 \<Rightarrow> tensor3 \<Rightarrow> (string \<rightharpoonup> tensor3) \<Rightarrow> error + tensor3" where
  "recompute_targets_LoadProbability inputs targets outputs =
     (case outputs ''cartesian position'' of
        None \<Rightarrow> Inl KeyError
      | Some cartesian_pos \<Rightarrow>
          let dist = tf_sqrt (tf_reduce_sum_axis2
                       (tmap (\<lambda>v. v ^ 2)
                          (tmap2 (-) (slice_last 0 2 cartesian_pos) (slice_last 0 2 targets))));
              dist = tf_where2_const (tf_equal2 (index_last 3 inputs) (- 1)) 1000 dist;
              dist = tf_tile_1_1_2 (tf_expand_dims_axis2 dist);
              cartesian_pos_no_vel =
                tf_concat_axis2 (slice_last 0 2 cartesian_pos) (tf_zeros_like dist);
              dist = tf_concat_axis2 dist (tf_zeros_like dist)
          in Inr (tf_where (tf_less_equal dist 0.035) cartesian_pos_no_vel targets))"

subsection \<open>Shapes\<close>

text \<open>
  Two tensors agree in batch and time extent; every feature vector of a tensor has at
  least, or exactly, a given number of components; a tensor has given batch and time extents.
\<close>

definition same_shape :: "'a list list \<Rightarrow> 'b list list \<Rightarrow> bool" where
  "same_shape x y = list_all2 (\<lambda>r s. length r = length s) x y"

definition min_width :: "nat \<Rightarrow> 'a list list list \<Rightarrow> bool" where
  "min_width w x = list_all (list_all (\<lambda>c. w \<le> length c)) x"

definition has_width :: "nat \<Rightarrow> 'a list list list \<Rightarrow> bool" where
  "has_width w x = list_all (list_all (\<lambda>c. length c = w)) x"

definition has_shape :: "nat \<Rightarrow> nat \<Rightarrow> 'a list list \<Rightarrow> bool" where
  "has_shape b t x = (length x = b \<and> list_all (\<lambda>row. length row = t) x)"

text \<open>The Euclidean distance of the positions (the first two components) of two states.\<close>

definition dist2 :: "vec \<Rightarrow> vec \<Rightarrow> real" where
  "dist2 p t = sqrt ((p ! 0 - t ! 0) ^ 2 + (p ! 1 - t ! 1) ^ 2)"

text \<open>The dictionary of a forward pass whose cartesian position is \<open>pos\<close>.\<close>

definition forward_pass :: "tensor3 \<Rightarrow> (string \<rightharpoonup> tensor3)" where
  "forward_pass pos = [''cartesian position'' \<mapsto> pos]"

subsection \<open>Quantities named in the properties\<close>

text \<open>The delay that trial \<open>i\<close> of a batch draws.\<close>

definition trial_delay :: "timed_task \<Rightarrow> rng \<Rightarrow> nat \<Rightarrow> int" where
  "trial_delay self rng i =
     py_int (np_random_uniform (fst (delay_range self)) (snd (delay_range self)) (delay_sample rng i))"

text \<open>The cue signal of a trial: zero, then the bump, then zero.\<close>

definition cue_signal :: "timed_task \<Rightarrow> nat \<Rightarrow> int \<Rightarrow> vec" where
  "cue_signal self n d =
     replicate (nat d) 0 @ replicate (nat (bump_length self)) (bump_height self)
       @ replicate (nat (int n - d - bump_length self)) 0"

subsection \<open>A small configuration\<close>

text \<open>
  A plant whose cartesian states are its joint states, a controller whose trial \<open>k\<close>
  starts at the joint state (k, k, 0, 0) unless initial joint states are supplied, a task
  with a bump of one step and height 3, delays between one and three steps, two targets
  and one step of fixation, and the values drawn in one call of \<open>generate\<close>.
\<close>

definition example_plant :: plant where
  "example_plant = \<lparr>space_dim = 2, joint2cartesian = (\<lambda>q. q)\<rparr>"

definition example_controller :: "nat \<Rightarrow> mat option \<Rightarrow> mat list" where
  "example_controller b inp =
     (case inp of None \<Rightarrow> [map (\<lambda>k. [real k, real k, 0, 0]) [0..<b]] | Some m \<Rightarrow> [m])"

definition example_task :: timed_task where
  "example_task = \<lparr>initial_joint_state = None, n_initial_joint_states = None,
     bump_length = 1, bump_height = 3, delay_range = (1, 3), num_target = 2,
     fixation_time = 1\<rparr>"

definition example_rng :: rng where
  "example_rng = \<lparr>initial_index = [],
     goal_states = (\<lambda>k. [[5 + real k, 6, 0, 0], [7 + real k, 8, 0, 0]]),
     delay_sample = (\<lambda>i. if i = 0 then 0 else 3 / 4),
     prob_index = (\<lambda>i. if i = 0 then 4 else 0),
     catch_sample = (\<lambda>i. if i = 2 then 1 / 10 else 1 / 2),
     pert_sample = (\<lambda>i. 1 / 2)\<rparr>"

section \<open>Properties\<close>

subsection \<open>Sequencing, loops and slices\<close>

lemma and_then_Inr [simp]: "and_then (Inr x) f = f x"
  by (simp add: and_then_def)

lemma and_then_Inl [simp]: "and_then (Inl e) f = Inl e"
  by (simp add: and_then_def)

lemma and_then_eq_Inr:
  "and_then m f = Inr y \<longleftrightarrow> (\<exists>x. m = Inr x \<and> f x = Inr y)"
  by (cases m) simp_all

lemma for_each_append:
  "for_each body (xs @ ys) s = and_then (for_each body xs s) (for_each body ys)"
  by (induction xs arbitrary: s) (simp_all add: and_then_def split: sum.splits)

lemma for_each_upt_Suc:
  "for_each body [0..<Suc k] s = and_then (for_each body [0..<k] s) (body k)"
  by (simp add: for_each_append and_then_def split: sum.splits)

lemma for_each_success:
  "for_each body xs s = Inr s' \<Longrightarrow> i \<in> set xs \<Longrightarrow> \<exists>a b. body i a = Inr b"
proof (induction xs arbitrary: s)
  case Nil
  then show ?case by simp
next
  case (Cons x xs)
  from Cons.prems(1) obtain s1 where s1: "body x s = Inr s1" "for_each body xs s1 = Inr s'"
    by (auto simp: and_then_eq_Inr)
  show ?case
  proof (cases "i = x")
    case True
    with s1 show ?thesis by blast
  next
    case False
    with Cons.prems(2) have "i \<in> set xs" by simp
    with Cons.IH[OF s1(2)] show ?thesis by blast
  qed
qed

lemma generate_delay_time_random:
  "generate_delay_time (fst (delay_range self)) (snd (delay_range self)) ''random''
     (delay_sample rng i) = Inr (trial_delay self rng i)"
  by (simp add: generate_delay_time_def trial_delay_def)

lemma length_assign_rows [simp]: "length (assign_rows lo hi v a) = length a"
  by (simp add: assign_rows_def)

lemma nth_assign_rows:
  "t < length a \<Longrightarrow> assign_rows lo hi v a ! t = (if lo \<le> t \<and> t < hi then v else a ! t)"
  by (simp add: assign_rows_def)

lemma length_assign_slice [simp]: "length (assign_slice lo rows a) = length a"
  by (simp add: assign_slice_def)

lemma nth_assign_slice:
  "t < length a \<Longrightarrow>
     assign_slice lo rows a ! t = (if lo \<le> t \<and> t < lo + length rows then rows ! (t - lo) else a ! t)"
  by (simp add: assign_slice_def)

lemma np_zeros_eq_Inr: "np_zeros k = Inr z \<longleftrightarrow> 0 \<le> k \<and> z = replicate (nat k) 0"
  by (auto simp: np_zeros_def)

lemma np_ones_eq_Inr: "np_ones k = Inr z \<longleftrightarrow> 0 \<le> k \<and> z = replicate (nat k) 1"
  by (auto simp: np_ones_def)

lemma np_zeros2_eq_Inr:
  "np_zeros2 k w = Inr z \<longleftrightarrow> 0 \<le> k \<and> z = replicate (nat k) (replicate w 0)"
  by (auto simp: np_zeros2_def)

subsection \<open>Shapes of tensors\<close>

lemma same_shapeD:
  "same_shape x y \<Longrightarrow> length x = length y"
  "same_shape x y \<Longrightarrow> i < length x \<Longrightarrow> length (x ! i) = length (y ! i)"
  by (auto simp: same_shape_def list_all2_conv_all_nth)

lemma same_shapeI:
  "length x = length y \<Longrightarrow> (\<And>i. i < length y \<Longrightarrow> length (x ! i) = length (y ! i))
     \<Longrightarrow> same_shape x y"
  by (simp add: same_shape_def list_all2_conv_all_nth)

lemma min_widthD:
  "min_width w x \<Longrightarrow> i < length x \<Longrightarrow> j < length (x ! i) \<Longrightarrow> w \<le> length (x ! i ! j)"
  by (auto simp: min_width_def list_all_length)

lemma has_widthD:
  "has_width w x \<Longrightarrow> i < length x \<Longrightarrow> j < length (x ! i) \<Longrightarrow> length (x ! i ! j) = w"
  by (auto simp: has_width_def list_all_length)

lemma has_widthI:
  "(\<And>i j. i < length x \<Longrightarrow> j < length (x ! i) \<Longrightarrow> length (x ! i ! j) = w) \<Longrightarrow> has_width w x"
  by (simp add: has_width_def list_all_length)

lemma has_shapeD:
  "has_shape b t x \<Longrightarrow> length x = b"
  "has_shape b t x \<Longrightarrow> i < b \<Longrightarrow> length (x ! i) = t"
  by (auto simp: has_shape_def list_all_length)

lemma has_shapeI:
  "length x = b \<Longrightarrow> (\<And>i. i < b \<Longrightarrow> length (x ! i) = t) \<Longrightarrow> has_shape b t x"
  by (auto simp: has_shape_def list_all_length)

lemma tensor_eqI:
  assumes "length (x :: 'a list list) = length y"
    and "\<And>i. i < length y \<Longrightarrow> length (x ! i) = length (y ! i)"
    and "\<And>i j. i < length y \<Longrightarrow> j < length (y ! i) \<Longrightarrow> x ! i ! j = y ! i ! j"
  shows "x = y"
  using assms by (auto intro!: nth_equalityI)

lemma len4E:
  assumes "length v = 4"
  obtains a b c d where "v = [a, b, c, d]"
  using assms by (auto simp: length_Suc_conv numeral_eq_Suc)

lemma len2E:
  assumes "2 \<le> length v"
  obtains a b w where "v = a # b # w"
  using assms by (cases v; cases "tl v") auto

subsection \<open>Target recomputation\<close>

lemmas tensor_defs = tf_where_def tmap2_def tmap_def tf_less_equal_def tf_concat_axis2_def
  slice_last_def tf_zeros_like_def tf_tile_1_1_2_def tf_expand_dims_axis2_def tf_sqrt_def
  tf_reduce_sum_axis2_def tf_equal2_def tf_where2_const_def index_last_def

lemma DR_cells:
  assumes o: "outputs ''cartesian position'' = Some pos"
    and s: "same_shape pos targets" and p: "min_width 2 pos" and t: "has_width 4 targets"
  shows "\<exists>r. recompute_targets_DelayedReach inputs targets outputs = Inr r
     \<and> length r = length targets
     \<and> (\<forall>i<length targets. length (r ! i) = length (targets ! i)
          \<and> (\<forall>j<length (targets ! i). r ! i ! j =
               (if dist2 (pos ! i ! j) (targets ! i ! j) \<le> 0.1
                then [pos ! i ! j ! 0, pos ! i ! j ! 1, 0, 0]
                else [targets ! i ! j ! 0, targets ! i ! j ! 1, 0, 0])))"
proof -
  note [simp] = same_shapeD[OF s]
  define r where "r = projr (recompute_targets_DelayedReach inputs targets outputs)"
  have r: "recompute_targets_DelayedReach inputs targets outputs = Inr r"
    by (simp add: r_def recompute_targets_DelayedReach_def o Let_def)
  have l1: "length r = length targets"
    by (simp add: r_def recompute_targets_DelayedReach_def o Let_def tensor_defs)
  have l2: "length (r ! i) = length (targets ! i)" if "i < length targets" for i
    using that by (simp add: r_def recompute_targets_DelayedReach_def o Let_def tensor_defs)
  have c: "r ! i ! j = (if dist2 (pos ! i ! j) (targets ! i ! j) \<le> 0.1
                then [pos ! i ! j ! 0, pos ! i ! j ! 1, 0, 0]
                else [targets ! i ! j ! 0, targets ! i ! j ! 1, 0, 0])"
    if i: "i < length targets" and j: "j < length (targets ! i)" for i j
  proof -
    obtain p0 p1 w where pc: "pos ! i ! j = p0 # p1 # w"
      using min_widthD[OF p, of i j] i j by (auto elim: len2E)
    obtain t0 t1 t2 t3 where tc: "targets ! i ! j = [t0, t1, t2, t3]"
      using has_widthD[OF t i j] by (auto elim: len4E)
    show ?thesis
      using i j
      by (simp add: r_def recompute_targets_DelayedReach_def o Let_def tensor_defs pc tc
          dist2_def)
  qed
  from r l1 l2 c show ?thesis by blast
qed

lemma LP_cells:
  assumes o: "outputs ''cartesian position'' = Some pos"
    and s: "same_shape pos targets" and p: "min_width 2 pos" and t: "has_width 4 targets"
    and si: "same_shape inputs targets" and pi: "min_width 4 inputs"
  shows "\<exists>r. recompute_targets_LoadProbability inputs targets outputs = Inr r
     \<and> length r = length targets
     \<and> (\<forall>i<length targets. length (r ! i) = length (targets ! i)
          \<and> (\<forall>j<length (targets ! i). r ! i ! j =
               (if inputs ! i ! j ! 3 \<noteq> - 1 \<and> dist2 (pos ! i ! j) (targets ! i ! j) \<le> 0.035
                then [pos ! i ! j ! 0, pos ! i ! j ! 1, 0, 0]
                else [targets ! i ! j ! 0, targets ! i ! j ! 1, 0, 0])))"
proof -
  note [simp] = same_shapeD[OF s] same_shapeD[OF si]
  define r where "r = projr (recompute_targets_LoadProbability inputs targets outputs)"
  have r: "recompute_targets_LoadProbability inputs targets outputs = Inr r"
    by (simp add: r_def recompute_targets_LoadProbability_def o Let_def)
  have l1: "length r = length targets"
    by (simp add: r_def recompute_targets_LoadProbability_def o Let_def tensor_defs)
  have l2: "length (r ! i) = length (targets ! i)" if "i < length targets" for i
    using that by (simp add: r_def recompute_targets_LoadProbability_def o Let_def tensor_defs)
  have c: "r ! i ! j = (if inputs ! i ! j ! 3 \<noteq> - 1 \<and> dist2 (pos ! i ! j) (targets ! i ! j) \<le> 0.035
                then [pos ! i ! j ! 0, pos ! i ! j ! 1, 0, 0]
                else [targets ! i ! j ! 0, targets ! i ! j ! 1, 0, 0])"
    if i: "i < length targets" and j: "j < length (targets ! i)" for i j
  proof -
    obtain p0 p1 w where pc: "pos ! i ! j = p0 # p1 # w"
      using min_widthD[OF p, of i j] i j by (auto elim: len2E)
    obtain t0 t1 t2 t3 where tc: "targets ! i ! j = [t0, t1, t2, t3]"
      using has_widthD[OF t i j] by (auto elim: len4E)
    show ?thesis
      using i j
      by (simp add: r_def recompute_targets_LoadProbability_def o Let_def tensor_defs pc tc
          dist2_def)
  qed
  from r l1 l2 c show ?thesis by blast
qed


lemma dist2_self: "dist2 p [p ! 0, p ! Suc 0, a, b] = 0"
  by (simp add: dist2_def)

lemma dist2_pos_only: "dist2 p [t ! 0, t ! Suc 0, a, b] = dist2 p t"
  by (simp add: dist2_def)

subsection \<open>The loop of \<open>TaskDelayedReach.generate\<close>\<close>

lemma DelayedReach_body_Inr:
  assumes "DelayedReach_body self n center rng i (ti, tg) = Inr (ti', tg')"
  defines "d \<equiv> trial_delay self rng i"
  shows "0 \<le> d" and "0 \<le> bump_length self" and "d + bump_length self \<le> int n"
    and "i < length tg" and "length (tg ! i) = n"
    and "ti' = ti @ [map2 (@) (map (take 2) (tg ! i))
                 (map (\<lambda>b. [b]) (cue_signal self n d))]"
    and "tg' = tg[i := assign_rows 0 (nat d) center (tg ! i)]"
proof -
  from assms(1) obtain z1 o1 z2 where
    z1: "np_zeros d = Inr z1" and o1: "np_ones (bump_length self) = Inr o1"
    and z2: "np_zeros (int n - d - bump_length self) = Inr z2"
    and rest: "(let bump = z1 @ map (\<lambda>x. x * bump_height self) o1 @ z2
        in if length tg \<le> i then Inl IndexError
           else case np_squeeze (map (take 2) (tg ! i)) of
                  None \<Rightarrow> Inl ValueError
                | Some goal_pos \<Rightarrow>
                    and_then (np_concatenate_axis1 goal_pos (map (\<lambda>b. [b]) bump)) (\<lambda>inp.
                      Inr (ti @ [inp],
                           tg[i := assign_rows 0 (nat d) center (tg ! i)]))) = Inr (ti', tg')"
    unfolding DelayedReach_body_def d_def
    by (auto simp: generate_delay_time_random and_then_eq_Inr)
  from z1 o1 z2 show "0 \<le> d" "0 \<le> bump_length self" "d + bump_length self \<le> int n"
    by (simp_all add: np_zeros_eq_Inr np_ones_eq_Inr)
  from rest show i: "i < length tg"
    by (auto simp: Let_def split: if_splits)
  define bump where "bump = z1 @ map (\<lambda>x. x * bump_height self) o1 @ z2"
  have bump: "bump = cue_signal self n d"
    using z1 o1 z2 by (simp add: bump_def cue_signal_def np_zeros_eq_Inr np_ones_eq_Inr)
  have lb: "length bump = n"
    using \<open>0 \<le> d\<close> \<open>0 \<le> bump_length self\<close> \<open>d + bump_length self \<le> int n\<close>
    by (simp add: bump cue_signal_def)
  from rest i obtain goal_pos inp where
    gp: "np_squeeze (map (take 2) (tg ! i)) = Some goal_pos"
    and inp: "np_concatenate_axis1 goal_pos (map (\<lambda>b. [b]) bump) = Inr inp"
    and res: "ti' = ti @ [inp]" "tg' = tg[i := assign_rows 0 (nat d) center (tg ! i)]"
    by (auto simp: Let_def bump_def[symmetric] and_then_eq_Inr split: option.splits)
  from gp have gp': "goal_pos = map (take 2) (tg ! i)"
    by (auto simp: np_squeeze_def split: if_splits)
  from inp have "length goal_pos = length bump" and inp': "inp = map2 (@) goal_pos (map (\<lambda>b. [b]) bump)"
    by (auto simp: np_concatenate_axis1_def split: if_splits)
  then show "length (tg ! i) = n"
    by (simp add: gp' lb)
  show "ti' = ti @ [map2 (@) (map (take 2) (tg ! i))
                 (map (\<lambda>b. [b]) (cue_signal self n d))]"
    using res(1) inp' gp' bump by simp
  show "tg' = tg[i := assign_rows 0 (nat d) center (tg ! i)]"
    by (rule res(2))
qed

lemma nth_cue_signal:
  assumes "0 \<le> d" "0 \<le> bump_length self" "d + bump_length self \<le> int n" "t < n"
  shows "cue_signal self n d ! t
       = (if d \<le> int t \<and> int t < d + bump_length self then bump_height self else 0)"
  using assms by (auto simp: cue_signal_def nth_append)

lemma length_cue_signal:
  "0 \<le> d \<Longrightarrow> 0 \<le> bump_length self \<Longrightarrow> d + bump_length self \<le> int n
     \<Longrightarrow> length (cue_signal self n d) = n"
  by (simp add: cue_signal_def)

lemma DelayedReach_loop:
  assumes "for_each (DelayedReach_body self n center rng) [0..<k] ([], T0) = Inr (ti, tg)"
  shows "length ti = k \<and> length tg = length T0
     \<and> (\<forall>i<k. 0 \<le> trial_delay self rng i \<and> 0 \<le> bump_length self
            \<and> trial_delay self rng i + bump_length self \<le> int n
            \<and> i < length T0 \<and> length (T0 ! i) = n
            \<and> ti ! i = map2 (@) (map (take 2) (T0 ! i))
                         (map (\<lambda>b. [b]) (cue_signal self n (trial_delay self rng i)))
            \<and> tg ! i = assign_rows 0 (nat (trial_delay self rng i)) center (T0 ! i))
     \<and> (\<forall>i\<ge>k. i < length T0 \<longrightarrow> tg ! i = T0 ! i)"
  using assms
proof (induction k arbitrary: ti tg)
  case 0
  then show ?case by simp
next
  case (Suc k)
  from Suc.prems obtain ti0 tg0 where
    pre: "for_each (DelayedReach_body self n center rng) [0..<k] ([], T0) = Inr (ti0, tg0)"
    and step: "DelayedReach_body self n center rng k (ti0, tg0) = Inr (ti, tg)"
    unfolding for_each_upt_Suc by (auto simp: and_then_eq_Inr)
  note ih = Suc.IH[OF pre]
  note b = DelayedReach_body_Inr[OF step]
  from ih have l: "length ti0 = k" "length tg0 = length T0" by simp_all
  from ih b(4) l have same: "tg0 ! k = T0 ! k" by simp
  have "length ti = Suc k" using b(6) l by simp
  moreover have "length tg = length T0" using b(7) l by simp
  moreover have "\<forall>i<Suc k. 0 \<le> trial_delay self rng i \<and> 0 \<le> bump_length self
            \<and> trial_delay self rng i + bump_length self \<le> int n
            \<and> i < length T0 \<and> length (T0 ! i) = n
            \<and> ti ! i = map2 (@) (map (take 2) (T0 ! i))
                         (map (\<lambda>b. [b]) (cue_signal self n (trial_delay self rng i)))
            \<and> tg ! i = assign_rows 0 (nat (trial_delay self rng i)) center (T0 ! i)"
  proof (intro allI impI)
    fix i assume "i < Suc k"
    show "0 \<le> trial_delay self rng i \<and> 0 \<le> bump_length self
            \<and> trial_delay self rng i + bump_length self \<le> int n
            \<and> i < length T0 \<and> length (T0 ! i) = n
            \<and> ti ! i = map2 (@) (map (take 2) (T0 ! i))
                         (map (\<lambda>b. [b]) (cue_signal self n (trial_delay self rng i)))
            \<and> tg ! i = assign_rows 0 (nat (trial_delay self rng i)) center (T0 ! i)"
    proof (cases "i = k")
      case True
      then show ?thesis
        using b l same by (simp add: nth_append)
    next
      case False
      with \<open>i < Suc k\<close> have "i < k" by simp
      with ih False show ?thesis
        using b(6,7) l by (simp add: nth_append)
    qed
  qed
  moreover have "\<forall>i\<ge>Suc k. i < length T0 \<longrightarrow> tg ! i = T0 ! i"
    using ih b(7) by simp
  ultimately show ?case by blast
qed

subsection \<open>The timing sampler\<close>

lemma np_random_uniform_range:
  assumes "unit_sample r" and "low < high"
  shows "low \<le> np_random_uniform low high r" and "np_random_uniform low high r < high"
proof -
  from assms have r: "0 \<le> r" "r < 1" and d: "0 < high - low"
    by (simp_all add: unit_sample_def)
  have "0 \<le> (high - low) * r"
    using r d by simp
  then show "low \<le> np_random_uniform low high r"
    by (simp add: np_random_uniform_def)
  have "(high - low) * r < (high - low) * 1"
    using r d by (intro mult_strict_left_mono) simp_all
  then show "np_random_uniform low high r < high"
    by (simp add: np_random_uniform_def)
qed

lemma np_random_uniform_between:
  assumes "unit_sample r" and "low \<le> high"
  shows "low \<le> np_random_uniform low high r" and "np_random_uniform low high r \<le> high"
proof -
  show "low \<le> np_random_uniform low high r"
  proof (cases "low = high")
    case True
    then show ?thesis by (simp add: np_random_uniform_def)
  next
    case False
    with assms np_random_uniform_range(1)[of r low high] show ?thesis by simp
  qed
  show "np_random_uniform low high r \<le> high"
  proof (cases "low = high")
    case True
    then show ?thesis by (simp add: np_random_uniform_def)
  next
    case False
    with assms np_random_uniform_range(2)[of r low high] show ?thesis by simp
  qed
qed

subsection \<open>The loop of \<open>TaskLoadProbability.generate\<close>\<close>

lemma LoadProbability_trial_Inr:
  "\<exists>inp tg. LoadProbability_trial self n center rng i row = Inr (inp, tg)
     \<and> length inp = n \<and> length tg = length row"
  by (simp add: LoadProbability_trial_def generate_delay_time_random Let_def)

lemma LoadProbability_loop:
  assumes "for_each (LoadProbability_body self n center rng) [0..<k] (I0, T0) = Inr (I, T)"
    and "length I0 = length T0"
  shows "length I = length I0 \<and> length T = length T0
     \<and> (\<forall>i<k. i < length T0 \<longrightarrow>
            LoadProbability_trial self n center rng i (T0 ! i) = Inr (I ! i, T ! i))
     \<and> (\<forall>i\<ge>k. i < length T0 \<longrightarrow> I ! i = I0 ! i \<and> T ! i = T0 ! i)"
  using assms(1)
proof (induction k arbitrary: I T)
  case 0
  then show ?case by simp
next
  case (Suc k)
  from Suc.prems obtain I1 T1 where
    pre: "for_each (LoadProbability_body self n center rng) [0..<k] (I0, T0) = Inr (I1, T1)"
    and step: "LoadProbability_body self n center rng k (I1, T1) = Inr (I, T)"
    unfolding for_each_upt_Suc by (auto simp: and_then_eq_Inr)
  note ih = Suc.IH[OF pre]
  from ih have l: "length I1 = length I0" "length T1 = length T0" by simp_all
  from step obtain inp tg where
    tr: "LoadProbability_trial self n center rng k (T1 ! k) = Inr (inp, tg)"
    and res: "I = I1[k := inp]" "T = T1[k := tg]"
    by (auto simp: LoadProbability_body_def and_then_eq_Inr)
  have "length I = length I0" "length T = length T0"
    using res l by simp_all
  moreover have "\<forall>i<Suc k. i < length T0 \<longrightarrow>
            LoadProbability_trial self n center rng i (T0 ! i) = Inr (I ! i, T ! i)"
  proof (intro allI impI)
    fix i assume i: "i < Suc k" "i < length T0"
    show "LoadProbability_trial self n center rng i (T0 ! i) = Inr (I ! i, T ! i)"
    proof (cases "i = k")
      case True
      with ih i(2) have "T1 ! k = T0 ! k" by simp
      with tr True i(2) l assms(2) show ?thesis by (simp add: res)
    next
      case False
      with i have "i < k" by simp
      with ih i(2) False show ?thesis by (simp add: res)
    qed
  qed
  moreover have "\<forall>i\<ge>Suc k. i < length T0 \<longrightarrow> I ! i = I0 ! i \<and> T ! i = T0 ! i"
    using ih res by simp
  ultimately show ?case by blast
qed

lemma generate_LoadProbability_Inr:
  assumes "generate_LoadProbability self plant controller batch_size n rng
             = Inr (inputs, targets, init_states)"
    and "i < batch_size"
  shows "length inputs = batch_size" and "length targets = batch_size"
    and "\<exists>joint0 goal_state. first_joint_state init_states = Inr joint0
       \<and> LoadProbability_trial self n (joint2cartesian plant joint0) rng i
            (replicate n goal_state) = Inr (inputs ! i, targets ! i)"
proof -
  from assms(1) obtain joint0 goal_state where
    j: "first_joint_state init_states = Inr joint0"
    and l: "for_each (LoadProbability_body self n (joint2cartesian plant joint0) rng)
          [0..<batch_size] (replicate batch_size (replicate n [0, 0, 0, 0]),
                            replicate batch_size (replicate n goal_state)) = Inr (inputs, targets)"
    unfolding generate_LoadProbability_def Let_def
    by (auto simp: and_then_eq_Inr)
  from LoadProbability_loop[OF l] have
    len: "length inputs = batch_size" "length targets = batch_size"
    and tr: "\<forall>i<batch_size. LoadProbability_trial self n (joint2cartesian plant joint0) rng i
            (replicate batch_size (replicate n goal_state) ! i) = Inr (inputs ! i, targets ! i)"
    by simp_all
  from len show "length inputs = batch_size" "length targets = batch_size" .
  from tr assms(2) j show "\<exists>joint0 goal_state. first_joint_state init_states = Inr joint0
       \<and> LoadProbability_trial self n (joint2cartesian plant joint0) rng i
            (replicate n goal_state) = Inr (inputs ! i, targets ! i)"
    by auto
qed

lemma LoadProbability_trial_catch:
  assumes "LoadProbability_trial self n center rng i row = Inr (inp, tg)"
    and "\<not> catch_sample rng i \<ge> 0.2" and "t < n"
  shows "inp ! t ! 3 = - 1"
  using assms
  by (auto simp: LoadProbability_trial_def generate_delay_time_random Let_def)

lemma LoadProbability_trial_pert:
  assumes "LoadProbability_trial self n center rng i row = Inr (inp, tg)"
    and "catch_sample rng i \<ge> 0.2" and "t < n"
    and "py_slice_index n (trial_delay self rng i + fixation_time self) \<le> t"
  shows "inp ! t ! 3 = LoadProbability_pert (prob_array ! prob_index rng i) (pert_sample rng i)"
  using assms
  by (auto simp: LoadProbability_trial_def generate_delay_time_random Let_def)

lemma LoadProbability_trial_before:
  assumes "LoadProbability_trial self n center rng i row = Inr (inp, tg)"
    and "t < n"
    and "\<not> py_slice_index n (trial_delay self rng i + fixation_time self) \<le> t"
  shows "inp ! t ! 3 = - 1"
  using assms
  by (auto simp: LoadProbability_trial_def generate_delay_time_random Let_def split: if_splits)

subsection \<open>Claims on target recomputation\<close>

text \<open>
  C1, as the spec states it, fails: outside the tolerance the target does not stay as it
  was, since its velocity components become zero, and \<open>TaskLoadProbability\<close> does not
  lock a position within the tolerance where the marker channel of the inputs is -1.
  The first part shows a target 1 away from the achieved position whose velocity
  (1, 1) is replaced by (0, 0); the second a marked time step at distance 0.01 whose
  target position (0, 0) is not replaced by the achieved position (0.01, 0).
\<close>

theorem recompute_targets_unchanged_counterexample:
  "\<not> dist2 [0, 0] [1, 0, 1, 1] \<le> 0.1
   \<and> recompute_targets_DelayedReach [] [[[1, 0, 1, 1]]] (forward_pass [[[0, 0]]])
       = Inr [[[1, 0, 0, 0]]]
   \<and> [[[1, 0, 0, 0]]] \<noteq> [[[1, 0, 1, 1 :: real]]]
   \<and> dist2 [1 / 100, 0] [0, 0, 0, 0] \<le> 0.035
   \<and> recompute_targets_LoadProbability [[[0, 0, 0, - 1]]] [[[0, 0, 0, 0]]]
         (forward_pass [[[1 / 100, 0]]])
       = Inr [[[0, 0, 0, 0]]]
   \<and> [[[0, 0, 0, 0]]] \<noteq> [[[1 / 100, 0, 0, 0 :: real]]]"
proof -
  have s: "sqrt (1 / 10000) = 1 / 100"
    by (rule real_sqrt_unique) (simp_all add: power2_eq_square)
  show ?thesis
    by (simp add: dist2_def recompute_targets_DelayedReach_def
        recompute_targets_LoadProbability_def forward_pass_def tensor_defs s power2_eq_square)
qed

text \<open>
  C1, amended: for tensors of matching shapes both functions return a tensor of the
  shape of the targets whose velocity components (2 and 3) are zero at every trial and
  time step. Its position components are the achieved position where the distance of
  the achieved position from the target position is at most the tolerance (0.1 for
  \<open>TaskDelayedReach\<close>; 0.035 for \<open>TaskLoadProbability\<close>, and there only where channel 3 of
  the inputs is not -1), the bound included, and the target position elsewhere.
\<close>

theorem recompute_targets_cells:
  assumes "outputs ''cartesian position'' = Some pos"
    and "same_shape pos targets" and "min_width 2 pos" and "has_width 4 targets"
  shows "(\<exists>r. recompute_targets_DelayedReach inputs targets outputs = Inr r
            \<and> same_shape r targets
            \<and> (\<forall>i<length targets. \<forall>j<length (targets ! i). r ! i ! j =
                 (if dist2 (pos ! i ! j) (targets ! i ! j) \<le> 0.1
                  then [pos ! i ! j ! 0, pos ! i ! j ! 1, 0, 0]
                  else [targets ! i ! j ! 0, targets ! i ! j ! 1, 0, 0])))
       \<and> (same_shape inputs targets \<and> min_width 4 inputs \<longrightarrow>
           (\<exists>q. recompute_targets_LoadProbability inputs targets outputs = Inr q
            \<and> same_shape q targets
            \<and> (\<forall>i<length targets. \<forall>j<length (targets ! i). q ! i ! j =
                 (if inputs ! i ! j ! 3 \<noteq> - 1 \<and> dist2 (pos ! i ! j) (targets ! i ! j) \<le> 0.035
                  then [pos ! i ! j ! 0, pos ! i ! j ! 1, 0, 0]
                  else [targets ! i ! j ! 0, targets ! i ! j ! 1, 0, 0]))))"
proof (intro conjI impI)
  from DR_cells[where outputs=outputs and inputs=inputs, OF assms] obtain r where
    "recompute_targets_DelayedReach inputs targets outputs = Inr r"
    "length r = length targets"
    "\<And>i. i < length targets \<Longrightarrow> length (r ! i) = length (targets ! i)"
    "\<And>i j. i < length targets \<Longrightarrow> j < length (targets ! i) \<Longrightarrow> r ! i ! j =
       (if dist2 (pos ! i ! j) (targets ! i ! j) \<le> 0.1
        then [pos ! i ! j ! 0, pos ! i ! j ! 1, 0, 0]
        else [targets ! i ! j ! 0, targets ! i ! j ! 1, 0, 0])"
    by blast
  then show "\<exists>r. recompute_targets_DelayedReach inputs targets outputs = Inr r
            \<and> same_shape r targets
            \<and> (\<forall>i<length targets. \<forall>j<length (targets ! i). r ! i ! j =
                 (if dist2 (pos ! i ! j) (targets ! i ! j) \<le> 0.1
                  then [pos ! i ! j ! 0, pos ! i ! j ! 1, 0, 0]
                  else [targets ! i ! j ! 0, targets ! i ! j ! 1, 0, 0]))"
    by (intro exI[of _ r] conjI same_shapeI) simp_all
next
  assume "same_shape inputs targets \<and> min_width 4 inputs"
  then have si: "same_shape inputs targets" "min_width 4 inputs" by simp_all
  from LP_cells[where outputs=outputs, OF assms si] obtain q where
    "recompute_targets_LoadProbability inputs targets outputs = Inr q"
    "length q = length targets"
    "\<And>i. i < length targets \<Longrightarrow> length (q ! i) = length (targets ! i)"
    "\<And>i j. i < length targets \<Longrightarrow> j < length (targets ! i) \<Longrightarrow> q ! i ! j =
       (if inputs ! i ! j ! 3 \<noteq> - 1 \<and> dist2 (pos ! i ! j) (targets ! i ! j) \<le> 0.035
        then [pos ! i ! j ! 0, pos ! i ! j ! 1, 0, 0]
        else [targets ! i ! j ! 0, targets ! i ! j ! 1, 0, 0])"
    by blast
  then show "\<exists>q. recompute_targets_LoadProbability inputs targets outputs = Inr q
            \<and> same_shape q targets
            \<and> (\<forall>i<length targets. \<forall>j<length (targets ! i). q ! i ! j =
                 (if inputs ! i ! j ! 3 \<noteq> - 1 \<and> dist2 (pos ! i ! j) (targets ! i ! j) \<le> 0.035
                  then [pos ! i ! j ! 0, pos ! i ! j ! 1, 0, 0]
                  else [targets ! i ! j ! 0, targets ! i ! j ! 1, 0, 0]))"
    by (intro exI[of _ q] conjI same_shapeI) simp_all
qed

theorem recompute_targets_cells_witness:
  "forward_pass [[[0, 0], [0, 0]]] ''cartesian position'' = Some [[[0, 0], [0, 0]]]
   \<and> same_shape [[[0, 0], [0, 0 :: real]]] [[[1, 0, 1, 1], [0, 0, 2, 2 :: real]]]
   \<and> min_width 2 [[[0, 0], [0, 0 :: real]]]
   \<and> has_width 4 [[[1, 0, 1, 1], [0, 0, 2, 2 :: real]]]
   \<and> same_shape [[[0, 0, 0, - 1], [0, 0, 0, - 2 :: real]]] [[[1, 0, 1, 1], [0, 0, 2, 2 :: real]]]
   \<and> min_width 4 [[[0, 0, 0, - 1], [0, 0, 0, - 2 :: real]]]
   \<and> recompute_targets_DelayedReach [[[0, 0, 0, - 1], [0, 0, 0, - 2]]]
        [[[1, 0, 1, 1], [0, 0, 2, 2]]] (forward_pass [[[0, 0], [0, 0]]])
       = Inr [[[1, 0, 0, 0], [0, 0, 0, 0]]]
   \<and> recompute_targets_LoadProbability [[[0, 0, 0, - 1], [0, 0, 0, - 2]]]
        [[[1, 0, 1, 1], [0, 0, 2, 2]]] (forward_pass [[[0, 0], [0, 0]]])
       = Inr [[[1, 0, 0, 0], [0, 0, 0, 0]]]"
  using recompute_targets_cells [of "forward_pass [[[0, 0], [0, 0]]]" "[[[0, 0], [0, 0]]]"
      "[[[1, 0, 1, 1], [0, 0, 2, 2]]]" "[[[0, 0, 0, - 1], [0, 0, 0, - 2]]]"]
  by (simp add: forward_pass_def same_shape_def min_width_def has_width_def dist2_def
      recompute_targets_DelayedReach_def recompute_targets_LoadProbability_def tensor_defs)

text \<open>
  C9: \<open>recompute_targets\<close> is idempotent for a fixed rollout. For inputs, targets and
  outputs of matching shapes, a second application with the same inputs and outputs to
  the result of the first returns that result again.
\<close>

theorem recompute_targets_idempotent:
  assumes o: "outputs ''cartesian position'' = Some pos"
    and s: "same_shape pos targets" and p: "min_width 2 pos" and t: "has_width 4 targets"
  shows "(\<exists>r. recompute_targets_DelayedReach inputs targets outputs = Inr r
            \<and> recompute_targets_DelayedReach inputs r outputs = Inr r)
       \<and> (same_shape inputs targets \<and> min_width 4 inputs \<longrightarrow>
           (\<exists>q. recompute_targets_LoadProbability inputs targets outputs = Inr q
            \<and> recompute_targets_LoadProbability inputs q outputs = Inr q))"
proof (intro conjI impI)
  from DR_cells[where outputs=outputs and inputs=inputs, OF o s p t] obtain r where
    r: "recompute_targets_DelayedReach inputs targets outputs = Inr r"
    and l1: "length r = length targets"
    and l2: "\<And>i. i < length targets \<Longrightarrow> length (r ! i) = length (targets ! i)"
    and c: "\<And>i j. i < length targets \<Longrightarrow> j < length (targets ! i) \<Longrightarrow> r ! i ! j =
       (if dist2 (pos ! i ! j) (targets ! i ! j) \<le> 0.1
        then [pos ! i ! j ! 0, pos ! i ! j ! 1, 0, 0]
        else [targets ! i ! j ! 0, targets ! i ! j ! 1, 0, 0])"
    by blast
  have sr: "same_shape r targets"
    using l1 l2 by (intro same_shapeI) simp_all
  have s': "same_shape pos r"
    using s sr by (auto simp: same_shape_def list_all2_conv_all_nth)
  have t': "has_width 4 r"
    using l1 l2 c by (intro has_widthI) simp
  from DR_cells[where outputs=outputs and inputs=inputs, OF o s' p t'] obtain r' where
    r': "recompute_targets_DelayedReach inputs r outputs = Inr r'"
    and l1': "length r' = length r"
    and l2': "\<And>i. i < length r \<Longrightarrow> length (r' ! i) = length (r ! i)"
    and c': "\<And>i j. i < length r \<Longrightarrow> j < length (r ! i) \<Longrightarrow> r' ! i ! j =
       (if dist2 (pos ! i ! j) (r ! i ! j) \<le> 0.1
        then [pos ! i ! j ! 0, pos ! i ! j ! 1, 0, 0]
        else [r ! i ! j ! 0, r ! i ! j ! 1, 0, 0])"
    by blast
  have "r' = r"
  proof (rule tensor_eqI)
    show "length r' = length r" by (rule l1')
    show "length (r' ! i) = length (r ! i)" if "i < length r" for i
      using that by (rule l2')
    show "r' ! i ! j = r ! i ! j" if "i < length r" "j < length (r ! i)" for i j
      using that c'[of i j] c[of i j] l1 l2[of i]
      by (simp add: dist2_self dist2_pos_only)
  qed
  with r r' show "\<exists>r. recompute_targets_DelayedReach inputs targets outputs = Inr r
            \<and> recompute_targets_DelayedReach inputs r outputs = Inr r"
    by blast
next
  assume "same_shape inputs targets \<and> min_width 4 inputs"
  then have si: "same_shape inputs targets" and pi: "min_width 4 inputs" by simp_all
  from LP_cells[where outputs=outputs, OF o s p t si pi] obtain r where
    r: "recompute_targets_LoadProbability inputs targets outputs = Inr r"
    and l1: "length r = length targets"
    and l2: "\<And>i. i < length targets \<Longrightarrow> length (r ! i) = length (targets ! i)"
    and c: "\<And>i j. i < length targets \<Longrightarrow> j < length (targets ! i) \<Longrightarrow> r ! i ! j =
       (if inputs ! i ! j ! 3 \<noteq> - 1 \<and> dist2 (pos ! i ! j) (targets ! i ! j) \<le> 0.035
        then [pos ! i ! j ! 0, pos ! i ! j ! 1, 0, 0]
        else [targets ! i ! j ! 0, targets ! i ! j ! 1, 0, 0])"
    by blast
  have sr: "same_shape r targets"
    using l1 l2 by (intro same_shapeI) simp_all
  have s': "same_shape pos r" and si': "same_shape inputs r"
    using s si sr by (auto simp: same_shape_def list_all2_conv_all_nth)
  have t': "has_width 4 r"
    using l1 l2 c by (intro has_widthI) simp
  from LP_cells[where outputs=outputs, OF o s' p t' si' pi] obtain r' where
    r': "recompute_targets_LoadProbability inputs r outputs = Inr r'"
    and l1': "length r' = length r"
    and l2': "\<And>i. i < length r \<Longrightarrow> length (r' ! i) = length (r ! i)"
    and c': "\<And>i j. i < length r \<Longrightarrow> j < length (r ! i) \<Longrightarrow> r' ! i ! j =
       (if inputs ! i ! j ! 3 \<noteq> - 1 \<and> dist2 (pos ! i ! j) (r ! i ! j) \<le> 0.035
        then [pos ! i ! j ! 0, pos ! i ! j ! 1, 0, 0]
        else [r ! i ! j ! 0, r ! i ! j ! 1, 0, 0])"
    by blast
  have "r' = r"
  proof (rule tensor_eqI)
    show "length r' = length r" by (rule l1')
    show "length (r' ! i) = length (r ! i)" if "i < length r" for i
      using that by (rule l2')
    show "r' ! i ! j = r ! i ! j" if "i < length r" "j < length (r ! i)" for i j
      using that c'[of i j] c[of i j] l1 l2[of i]
      by (simp add: dist2_self dist2_pos_only)
  qed
  with r r' show "\<exists>q. recompute_targets_LoadProbability inputs targets outputs = Inr q
            \<and> recompute_targets_LoadProbability inputs q outputs = Inr q"
    by blast
qed

theorem recompute_targets_idempotent_witness:
  "forward_pass [[[0, 0], [0, 0]]] ''cartesian position'' = Some [[[0, 0], [0, 0]]]
   \<and> same_shape [[[0, 0], [0, 0 :: real]]] [[[1, 0, 1, 1], [0, 0, 2, 2 :: real]]]
   \<and> min_width 2 [[[0, 0], [0, 0 :: real]]]
   \<and> has_width 4 [[[1, 0, 1, 1], [0, 0, 2, 2 :: real]]]
   \<and> same_shape [[[0, 0, 0, - 1], [0, 0, 0, - 2 :: real]]] [[[1, 0, 1, 1], [0, 0, 2, 2 :: real]]]
   \<and> min_width 4 [[[0, 0, 0, - 1], [0, 0, 0, - 2 :: real]]]
   \<and> recompute_targets_DelayedReach [[[0, 0, 0, - 1], [0, 0, 0, - 2]]]
        [[[1, 0, 0, 0], [0, 0, 0, 0]]] (forward_pass [[[0, 0], [0, 0]]])
       = recompute_targets_DelayedReach [[[0, 0, 0, - 1], [0, 0, 0, - 2]]]
        [[[1, 0, 1, 1], [0, 0, 2, 2]]] (forward_pass [[[0, 0], [0, 0]]])
   \<and> recompute_targets_LoadProbability [[[0, 0, 0, - 1], [0, 0, 0, - 2]]]
        [[[1, 0, 0, 0], [0, 0, 0, 0]]] (forward_pass [[[0, 0], [0, 0]]])
       = recompute_targets_LoadProbability [[[0, 0, 0, - 1], [0, 0, 0, - 2]]]
        [[[1, 0, 1, 1], [0, 0, 2, 2]]] (forward_pass [[[0, 0], [0, 0]]])"
  using recompute_targets_idempotent [of "forward_pass [[[0, 0], [0, 0]]]" "[[[0, 0], [0, 0]]]"
      "[[[1, 0, 1, 1], [0, 0, 2, 2]]]" "[[[0, 0, 0, - 1], [0, 0, 0, - 2]]]"]
  by (simp add: forward_pass_def same_shape_def min_width_def has_width_def dist2_def
      recompute_targets_DelayedReach_def recompute_targets_LoadProbability_def tensor_defs)

subsection \<open>Claims on the timing sampler\<close>

text \<open>
  C7: \<open>generate_delay_time\<close> returns 0 in mode \<open>noDelayInput\<close> whatever the bounds; in
  mode \<open>random\<close> it returns the integer truncation of the value drawn by
  \<open>np.random.uniform\<close>, which lies in the half-open interval from \<open>delay_min\<close> to
  \<open>delay_max\<close>; for every other mode it raises \<open>AttributeError\<close> and returns no value.
\<close>

theorem generate_delay_time_modes:
  "generate_delay_time delay_min delay_max ''noDelayInput'' r = Inr 0
   \<and> generate_delay_time delay_min delay_max ''random'' r
       = Inr (py_int (np_random_uniform delay_min delay_max r))
   \<and> (unit_sample r \<and> delay_min < delay_max \<longrightarrow>
        delay_min \<le> np_random_uniform delay_min delay_max r
        \<and> np_random_uniform delay_min delay_max r < delay_max)
   \<and> (delay_mode \<noteq> ''random'' \<and> delay_mode \<noteq> ''noDelayInput'' \<longrightarrow>
        generate_delay_time delay_min delay_max delay_mode r = Inl AttributeError)"
  using np_random_uniform_range [of r delay_min delay_max]
  by (simp add: generate_delay_time_def py_int_def)

theorem generate_delay_time_modes_witness:
  "unit_sample (1/2) \<and> (10::real) < 90
   \<and> generate_delay_time 10 90 ''random'' (1/2) = Inr 50
   \<and> 10 \<le> np_random_uniform 10 90 (1/2) \<and> np_random_uniform 10 90 (1/2) < 90
   \<and> ''fixed'' \<noteq> ''random'' \<and> ''fixed'' \<noteq> ''noDelayInput''
   \<and> generate_delay_time 10 90 ''fixed'' (1/2) = Inl AttributeError"
  using generate_delay_time_modes [of 10 90 "1/2" "''fixed''"]
  by (simp add: unit_sample_def np_random_uniform_def py_int_def)

subsection \<open>Claims on \<open>TaskDelayedReach.generate\<close>\<close>

lemma generate_DelayedReach_Inr:
  assumes "generate_DelayedReach self plant controller batch_size n rng
             = Inr (inputs, targets, init_states)"
  defines "T0 \<equiv> state2target (map (joint2cartesian plant) (goal_states rng 0)) n"
  shows "\<exists>joint0. first_joint_state init_states = Inr joint0
     \<and> for_each (DelayedReach_body self n (joint2cartesian plant joint0) rng)
          [0..<batch_size] ([], T0) = Inr (inputs, targets)"
    and "0 < batch_size"
proof -
  from assms(1) obtain joint0 ti where
    j: "first_joint_state init_states = Inr joint0"
    and l: "for_each (DelayedReach_body self n (joint2cartesian plant joint0) rng)
          [0..<batch_size] ([], T0) = Inr (ti, targets)"
    and st: "tf_stack ti = Inr inputs"
    unfolding generate_DelayedReach_def T0_def Let_def
    by (auto simp: and_then_eq_Inr)
  from st have ti: "ti = inputs" "ti \<noteq> []"
    by (auto simp: tf_stack_def split: if_splits)
  with j l show "\<exists>joint0. first_joint_state init_states = Inr joint0
     \<and> for_each (DelayedReach_body self n (joint2cartesian plant joint0) rng)
          [0..<batch_size] ([], T0) = Inr (inputs, targets)"
    by blast
  from DelayedReach_loop[OF l] ti show "0 < batch_size"
    by auto
qed

text \<open>
  C3, as the spec states it, fails: before its delay has passed, the target of a trial is
  the cartesian projection of the initial joint state of the first trial of the batch,
  not of the trial's own. In the batch below the second trial starts at the joint state
  (1, 1, 0, 0), and its target at time 0 is (0, 0, 0, 0), the state of the first trial.
\<close>

theorem generate_DelayedReach_center_counterexample:
  "generate_DelayedReach example_task example_plant example_controller 2 4 example_rng
     = Inr ([[[5, 6, 0], [5, 6, 3], [5, 6, 0], [5, 6, 0]],
             [[7, 8, 0], [7, 8, 0], [7, 8, 3], [7, 8, 0]]],
            [[[0, 0, 0, 0], [5, 6, 0, 0], [5, 6, 0, 0], [5, 6, 0, 0]],
             [[0, 0, 0, 0], [0, 0, 0, 0], [7, 8, 0, 0], [7, 8, 0, 0]]],
            [[[0, 0, 0, 0], [1, 1, 0, 0]]])
   \<and> trial_delay example_task example_rng 1 = 2
   \<and> [[[0, 0, 0, 0], [0, 0, 0, 0], [7, 8, 0, 0], [7, 8, 0, 0 :: real]]] ! 0 ! 0
       \<noteq> joint2cartesian example_plant ([[[0, 0, 0, 0], [1, 1, 0, 0]]] ! 0 ! 1)"
  by code_simp

text \<open>
  C3, amended: in every batch that \<open>TaskDelayedReach.generate\<close> returns, for every trial
  and time step, the cue channel (the last channel of the input) is zero before the
  trial's delay, \<open>bump_height\<close> for the \<open>bump_length\<close> steps from the delay on and zero
  afterwards, while the other channels show the goal position throughout; the target is
  the cartesian projection of the initial joint state of the first trial of the batch
  before the trial's delay, and the trial's goal state from the delay on.
\<close>

theorem generate_DelayedReach_timeline:
  assumes "generate_DelayedReach self plant controller batch_size n rng
             = Inr (inputs, targets, init_states)"
    and "i < batch_size" and "t < n"
  shows "\<exists>joint0. first_joint_state init_states = Inr joint0
     \<and> last (inputs ! i ! t)
         = (if trial_delay self rng i \<le> int t
               \<and> int t < trial_delay self rng i + bump_length self
            then bump_height self else 0)
     \<and> butlast (inputs ! i ! t) = take 2 (joint2cartesian plant (goal_states rng 0 ! i))
     \<and> targets ! i ! t
         = (if int t < trial_delay self rng i then joint2cartesian plant joint0
            else joint2cartesian plant (goal_states rng 0 ! i))"
proof -
  define T0 where "T0 = state2target (map (joint2cartesian plant) (goal_states rng 0)) n"
  from generate_DelayedReach_Inr(1)[OF assms(1)] obtain joint0 where
    j: "first_joint_state init_states = Inr joint0"
    and l: "for_each (DelayedReach_body self n (joint2cartesian plant joint0) rng)
          [0..<batch_size] ([], T0) = Inr (inputs, targets)"
    unfolding T0_def by blast
  from DelayedReach_loop[OF l] assms(2) have
    d: "0 \<le> trial_delay self rng i" "0 \<le> bump_length self"
      "trial_delay self rng i + bump_length self \<le> int n"
    and i: "i < length T0" "length (T0 ! i) = n"
    and inp: "inputs ! i = map2 (@) (map (take 2) (T0 ! i))
                (map (\<lambda>b. [b]) (cue_signal self n (trial_delay self rng i)))"
    and tg: "targets ! i = assign_rows 0 (nat (trial_delay self rng i))
                (joint2cartesian plant joint0) (T0 ! i)"
    by simp_all
  from i(1) have ig: "i < length (goal_states rng 0)"
    by (simp add: T0_def state2target_def)
  then have row: "T0 ! i = replicate n (joint2cartesian plant (goal_states rng 0 ! i))"
    by (simp add: T0_def state2target_def)
  have cell: "inputs ! i ! t = take 2 (joint2cartesian plant (goal_states rng 0 ! i))
                @ [cue_signal self n (trial_delay self rng i) ! t]"
    using assms(3) by (simp add: inp row length_cue_signal[OF d])
  have "last (inputs ! i ! t)
         = (if trial_delay self rng i \<le> int t
               \<and> int t < trial_delay self rng i + bump_length self
            then bump_height self else 0)"
    unfolding cell using nth_cue_signal[OF d assms(3)] by simp
  moreover have "butlast (inputs ! i ! t) = take 2 (joint2cartesian plant (goal_states rng 0 ! i))"
    unfolding cell by simp
  moreover have "targets ! i ! t
         = (if int t < trial_delay self rng i then joint2cartesian plant joint0
            else joint2cartesian plant (goal_states rng 0 ! i))"
    using assms(3) d(1) by (auto simp: tg row nth_assign_rows)
  ultimately show ?thesis using j by blast
qed

theorem generate_DelayedReach_timeline_witness:
  "generate_DelayedReach example_task example_plant example_controller 2 4 example_rng
     = Inr ([[[5, 6, 0], [5, 6, 3], [5, 6, 0], [5, 6, 0]],
             [[7, 8, 0], [7, 8, 0], [7, 8, 3], [7, 8, 0]]],
            [[[0, 0, 0, 0], [5, 6, 0, 0], [5, 6, 0, 0], [5, 6, 0, 0]],
             [[0, 0, 0, 0], [0, 0, 0, 0], [7, 8, 0, 0], [7, 8, 0, 0]]],
            [[[0, 0, 0, 0], [1, 1, 0, 0]]])
   \<and> (1 :: nat) < 2 \<and> (2 :: nat) < 4
   \<and> (\<exists>joint0. first_joint_state [[[0, 0, 0, 0], [1, 1, 0, 0]]] = Inr joint0
     \<and> last ([[[5, 6, 0], [5, 6, 3], [5, 6, 0], [5, 6, 0]],
               [[7, 8, 0], [7, 8, 0], [7, 8, 3], [7, 8, 0 :: real]]] ! 1 ! 2)
         = (if trial_delay example_task example_rng 1 \<le> int 2
               \<and> int 2 < trial_delay example_task example_rng 1 + bump_length example_task
            then bump_height example_task else 0)
     \<and> butlast ([[[5, 6, 0], [5, 6, 3], [5, 6, 0], [5, 6, 0]],
                  [[7, 8, 0], [7, 8, 0], [7, 8, 3], [7, 8, 0 :: real]]] ! 1 ! 2)
         = take 2 (joint2cartesian example_plant (goal_states example_rng 0 ! 1))
     \<and> [[[0, 0, 0, 0], [5, 6, 0, 0], [5, 6, 0, 0], [5, 6, 0, 0]],
         [[0, 0, 0, 0], [0, 0, 0, 0], [7, 8, 0, 0], [7, 8, 0, 0 :: real]]] ! 1 ! 2
         = (if int 2 < trial_delay example_task example_rng 1
            then joint2cartesian example_plant joint0
            else joint2cartesian example_plant (goal_states example_rng 0 ! 1)))"
proof -
  have e: "generate_DelayedReach example_task example_plant example_controller 2 4 example_rng
     = Inr ([[[5, 6, 0], [5, 6, 3], [5, 6, 0], [5, 6, 0]],
             [[7, 8, 0], [7, 8, 0], [7, 8, 3], [7, 8, 0]]],
            [[[0, 0, 0, 0], [5, 6, 0, 0], [5, 6, 0, 0], [5, 6, 0, 0]],
             [[0, 0, 0, 0], [0, 0, 0, 0], [7, 8, 0, 0], [7, 8, 0, 0]]],
            [[[0, 0, 0, 0], [1, 1, 0, 0]]])"
    by code_simp
  from generate_DelayedReach_timeline[OF e, of 1 2] e show ?thesis
    by simp
qed

subsection \<open>Claims on \<open>TaskLoadProbability\<close>\<close>

text \<open>
  C5, as the spec states it, fails: it is the trial of probability 1 that receives the
  perturbed load -2 with certainty, and the trial of probability 0 that receives the
  load 0 with certainty. In the batch below the first trial draws the probability 1 and
  the second the probability 0; neither is a catch trial, and both draw 1/2 as the
  sample that decides the load.
\<close>

theorem LoadProbability_pert_counterexample:
  "prob_array ! prob_index example_rng 0 = 1
   \<and> prob_array ! prob_index example_rng 1 = 0
   \<and> unit_sample (pert_sample example_rng 0)
   \<and> LoadProbability_pert 1 (pert_sample example_rng 0) = - 2
   \<and> LoadProbability_pert 0 (pert_sample example_rng 1) = 0
   \<and> generate_LoadProbability example_task example_plant example_controller 2 4 example_rng
     = Inr ([[[0, 0, 0, - 1], [0, 0, 0, - 1], [1, 0, 0, - 2], [1, 0, 0, - 2]],
             [[0, 0, 0, - 1], [0, 0, 0, - 1], [0, 1, 0, - 1], [0, 1, 0, 0]]],
            [[[0, 0, 0, 0], [0, 0, 0, 0],
              [- (28279 / 1000000), - (42601 / 1000000), 0, 0],
              [- (28279 / 1000000), - (42601 / 1000000), 0, 0]],
             [[0, 0, 0, 0], [0, 0, 0, 0], [0, 0, 0, 0],
              [- (28279 / 1000000), - (42601 / 1000000), 0, 0]]],
            [[[0, 0, 0, 0], [1, 1, 0, 0]]])"
  by code_simp

text \<open>
  C5, amended: in every trial of a batch that \<open>TaskLoadProbability.generate\<close> returns
  which is not a catch trial, from the onset of the perturbation on, the load channel
  (channel 3 of the input) holds -2 for every outcome of the generator if the trial's
  probability value is 1, and 0 for every outcome if the probability value is 0.
\<close>

theorem LoadProbability_pert_certain:
  assumes "generate_LoadProbability self plant controller batch_size n rng
             = Inr (inputs, targets, init_states)"
    and "i < batch_size" and "catch_sample rng i \<ge> 0.2"
    and "unit_sample (pert_sample rng i)"
    and "t < n" and "py_slice_index n (trial_delay self rng i + fixation_time self) \<le> t"
  shows "(prob_array ! prob_index rng i = 1 \<longrightarrow> inputs ! i ! t ! 3 = - 2)
       \<and> (prob_array ! prob_index rng i = 0 \<longrightarrow> inputs ! i ! t ! 3 = 0)"
proof -
  from generate_LoadProbability_Inr(3)[OF assms(1,2)] obtain center row where
    "LoadProbability_trial self n center rng i row = Inr (inputs ! i, targets ! i)"
    by blast
  from LoadProbability_trial_pert[OF this assms(3,5,6)] assms(4) show ?thesis
    by (auto simp: LoadProbability_pert_def unit_sample_def)
qed

theorem LoadProbability_pert_certain_witness:
  "generate_LoadProbability example_task example_plant example_controller 2 4 example_rng
     = Inr ([[[0, 0, 0, - 1], [0, 0, 0, - 1], [1, 0, 0, - 2], [1, 0, 0, - 2]],
             [[0, 0, 0, - 1], [0, 0, 0, - 1], [0, 1, 0, - 1], [0, 1, 0, 0]]],
            [[[0, 0, 0, 0], [0, 0, 0, 0],
              [- (28279 / 1000000), - (42601 / 1000000), 0, 0],
              [- (28279 / 1000000), - (42601 / 1000000), 0, 0]],
             [[0, 0, 0, 0], [0, 0, 0, 0], [0, 0, 0, 0],
              [- (28279 / 1000000), - (42601 / 1000000), 0, 0]]],
            [[[0, 0, 0, 0], [1, 1, 0, 0]]])
   \<and> (0 :: nat) < 2 \<and> catch_sample example_rng 0 \<ge> 0.2
   \<and> unit_sample (pert_sample example_rng 0) \<and> (3 :: nat) < 4
   \<and> py_slice_index 4 (trial_delay example_task example_rng 0 + fixation_time example_task) \<le> 3
   \<and> prob_array ! prob_index example_rng 0 = 1
   \<and> [[[0, 0, 0, - 1], [0, 0, 0, - 1], [1, 0, 0, - 2], [1, 0, 0, - 2]],
       [[0, 0, 0, - 1], [0, 0, 0, - 1], [0, 1, 0, - 1], [0, 1, 0, 0 :: real]]] ! 0 ! 3 ! 3 = - 2"
proof -
  have e: "generate_LoadProbability example_task example_plant example_controller 2 4 example_rng
     = Inr ([[[0, 0, 0, - 1], [0, 0, 0, - 1], [1, 0, 0, - 2], [1, 0, 0, - 2]],
             [[0, 0, 0, - 1], [0, 0, 0, - 1], [0, 1, 0, - 1], [0, 1, 0, 0]]],
            [[[0, 0, 0, 0], [0, 0, 0, 0],
              [- (28279 / 1000000), - (42601 / 1000000), 0, 0],
              [- (28279 / 1000000), - (42601 / 1000000), 0, 0]],
             [[0, 0, 0, 0], [0, 0, 0, 0], [0, 0, 0, 0],
              [- (28279 / 1000000), - (42601 / 1000000), 0, 0]]],
            [[[0, 0, 0, 0], [1, 1, 0, 0]]])"
    by code_simp
  have h: "(0 :: nat) < 2" "catch_sample example_rng 0 \<ge> 0.2"
    "unit_sample (pert_sample example_rng 0)" "(3 :: nat) < 4"
    "py_slice_index 4 (trial_delay example_task example_rng 0 + fixation_time example_task) \<le> 3"
    "prob_array ! prob_index example_rng 0 = 1"
    by code_simp+
  from LoadProbability_pert_certain[OF e h(1-5)] e h show ?thesis
    by simp
qed

text \<open>
  C8, as the spec states it, fails: at a marked time step the target does not stay
  entirely as it was, since its velocity components become zero. Below, the marker
  channel is -1 and the target (0, 0, 1, 1) becomes (0, 0, 0, 0).
\<close>

theorem recompute_targets_LoadProbability_marked_counterexample:
  "[[[0, 0, 0, - 1 :: real]]] ! 0 ! 0 ! 3 = - 1
   \<and> recompute_targets_LoadProbability [[[0, 0, 0, - 1]]] [[[0, 0, 1, 1]]]
         (forward_pass [[[5, 5]]])
       = Inr [[[0, 0, 0, 0]]]
   \<and> [[[0, 0, 0, 0]]] \<noteq> [[[0, 0, 1, 1 :: real]]]"
  by (simp add: recompute_targets_LoadProbability_def forward_pass_def tensor_defs)

text \<open>
  C8, amended: at every trial and time step where channel 3 of the inputs holds -1,
  \<open>TaskLoadProbability.recompute_targets\<close> keeps the position components of the target
  whatever the achieved position is, and sets the velocity components to zero; so a
  target of zero velocity is unchanged there. In a catch trial of a batch that
  \<open>generate\<close> returns, channel 3 of the inputs holds -1 at every time step.
\<close>

theorem recompute_targets_LoadProbability_marked:
  assumes "outputs ''cartesian position'' = Some pos"
    and "same_shape pos targets" and "min_width 2 pos" and "has_width 4 targets"
    and "same_shape inputs targets" and "min_width 4 inputs"
    and "i < length targets" and "j < length (targets ! i)"
    and "inputs ! i ! j ! 3 = - 1"
  shows "(\<exists>q. recompute_targets_LoadProbability inputs targets outputs = Inr q
            \<and> q ! i ! j = [targets ! i ! j ! 0, targets ! i ! j ! 1, 0, 0]
            \<and> (targets ! i ! j ! 2 = 0 \<and> targets ! i ! j ! 3 = 0 \<longrightarrow> q ! i ! j = targets ! i ! j))
       \<and> (generate_LoadProbability self plant controller batch_size n rng
             = Inr (gen_inputs, gen_targets, init_states)
           \<and> k < batch_size \<and> \<not> catch_sample rng k \<ge> 0.2 \<and> t < n
          \<longrightarrow> gen_inputs ! k ! t ! 3 = - 1)"
proof (intro conjI impI)
  from LP_cells[where outputs=outputs, OF assms(1-6)] obtain q where
    q: "recompute_targets_LoadProbability inputs targets outputs = Inr q"
    and c: "\<And>i j. i < length targets \<Longrightarrow> j < length (targets ! i) \<Longrightarrow> q ! i ! j =
       (if inputs ! i ! j ! 3 \<noteq> - 1 \<and> dist2 (pos ! i ! j) (targets ! i ! j) \<le> 0.035
        then [pos ! i ! j ! 0, pos ! i ! j ! 1, 0, 0]
        else [targets ! i ! j ! 0, targets ! i ! j ! 1, 0, 0])"
    by blast
  from c[OF assms(7,8)] assms(9)
  have cell: "q ! i ! j = [targets ! i ! j ! 0, targets ! i ! j ! 1, 0, 0]"
    by simp
  obtain t0 t1 t2 t3 where tc: "targets ! i ! j = [t0, t1, t2, t3]"
    using has_widthD[OF assms(4,7,8)] by (auto elim: len4E)
  have "targets ! i ! j ! 2 = 0 \<and> targets ! i ! j ! 3 = 0 \<longrightarrow> q ! i ! j = targets ! i ! j"
    by (simp add: cell tc)
  with q cell show "\<exists>q. recompute_targets_LoadProbability inputs targets outputs = Inr q
            \<and> q ! i ! j = [targets ! i ! j ! 0, targets ! i ! j ! 1, 0, 0]
            \<and> (targets ! i ! j ! 2 = 0 \<and> targets ! i ! j ! 3 = 0 \<longrightarrow> q ! i ! j = targets ! i ! j)"
    by blast
next
  assume a: "generate_LoadProbability self plant controller batch_size n rng
             = Inr (gen_inputs, gen_targets, init_states)
           \<and> k < batch_size \<and> \<not> catch_sample rng k \<ge> 0.2 \<and> t < n"
  then have g: "generate_LoadProbability self plant controller batch_size n rng
             = Inr (gen_inputs, gen_targets, init_states)"
    and k: "k < batch_size" and rest: "\<not> catch_sample rng k \<ge> 0.2" "t < n"
    by simp_all
  from generate_LoadProbability_Inr(3)[OF g k] obtain center row where
    "LoadProbability_trial self n center rng k row = Inr (gen_inputs ! k, gen_targets ! k)"
    by blast
  from LoadProbability_trial_catch[OF this rest] show "gen_inputs ! k ! t ! 3 = - 1" .
qed

theorem recompute_targets_LoadProbability_marked_witness:
  "forward_pass [[[5, 5]]] ''cartesian position'' = Some [[[5, 5]]]
   \<and> same_shape [[[5, 5 :: real]]] [[[0, 0, 1, 1 :: real]]] \<and> min_width 2 [[[5, 5 :: real]]]
   \<and> has_width 4 [[[0, 0, 1, 1 :: real]]]
   \<and> same_shape [[[0, 0, 0, - 1 :: real]]] [[[0, 0, 1, 1 :: real]]]
   \<and> min_width 4 [[[0, 0, 0, - 1 :: real]]]
   \<and> (0 :: nat) < length [[[0, 0, 1, 1 :: real]]]
   \<and> (0 :: nat) < length ([[[0, 0, 1, 1 :: real]]] ! 0)
   \<and> [[[0, 0, 0, - 1 :: real]]] ! 0 ! 0 ! 3 = - 1
   \<and> recompute_targets_LoadProbability [[[0, 0, 0, - 1]]] [[[0, 0, 1, 1]]]
         (forward_pass [[[5, 5]]]) = Inr [[[0, 0, 0, 0]]]
   \<and> generate_LoadProbability example_task example_plant example_controller 3 4 example_rng
     = Inr ([[[0, 0, 0, - 1], [0, 0, 0, - 1], [1, 0, 0, - 2], [1, 0, 0, - 2]],
             [[0, 0, 0, - 1], [0, 0, 0, - 1], [0, 1, 0, - 1], [0, 1, 0, 0]],
             [[0, 0, 0, - 1], [0, 0, 0, - 1], [0, 1, 0, - 1], [0, 1, 0, - 1]]],
            [[[0, 0, 0, 0], [0, 0, 0, 0],
              [- (28279 / 1000000), - (42601 / 1000000), 0, 0],
              [- (28279 / 1000000), - (42601 / 1000000), 0, 0]],
             [[0, 0, 0, 0], [0, 0, 0, 0], [0, 0, 0, 0],
              [- (28279 / 1000000), - (42601 / 1000000), 0, 0]],
             [[0, 0, 0, 0], [0, 0, 0, 0], [0, 0, 0, 0], [0, 0, 0, 0]]],
            [[[0, 0, 0, 0], [1, 1, 0, 0], [2, 2, 0, 0]]])
   \<and> (2 :: nat) < 3 \<and> \<not> catch_sample example_rng 2 \<ge> 0.2 \<and> (3 :: nat) < 4
   \<and> [[[0, 0, 0, - 1], [0, 0, 0, - 1], [1, 0, 0, - 2], [1, 0, 0, - 2]],
       [[0, 0, 0, - 1], [0, 0, 0, - 1], [0, 1, 0, - 1], [0, 1, 0, 0]],
       [[0, 0, 0, - 1], [0, 0, 0, - 1], [0, 1, 0, - 1], [0, 1, 0, - 1 :: real]]] ! 2 ! 3 ! 3 = - 1"
proof -
  have e: "generate_LoadProbability example_task example_plant example_controller 3 4 example_rng
     = Inr ([[[0, 0, 0, - 1], [0, 0, 0, - 1], [1, 0, 0, - 2], [1, 0, 0, - 2]],
             [[0, 0, 0, - 1], [0, 0, 0, - 1], [0, 1, 0, - 1], [0, 1, 0, 0]],
             [[0, 0, 0, - 1], [0, 0, 0, - 1], [0, 1, 0, - 1], [0, 1, 0, - 1]]],
            [[[0, 0, 0, 0], [0, 0, 0, 0],
              [- (28279 / 1000000), - (42601 / 1000000), 0, 0],
              [- (28279 / 1000000), - (42601 / 1000000), 0, 0]],
             [[0, 0, 0, 0], [0, 0, 0, 0], [0, 0, 0, 0],
              [- (28279 / 1000000), - (42601 / 1000000), 0, 0]],
             [[0, 0, 0, 0], [0, 0, 0, 0], [0, 0, 0, 0], [0, 0, 0, 0]]],
            [[[0, 0, 0, 0], [1, 1, 0, 0], [2, 2, 0, 0]]])"
    by code_simp
  have c: "\<not> catch_sample example_rng 2 \<ge> 0.2"
    by code_simp
  have rc: "recompute_targets_LoadProbability [[[0, 0, 0, - 1]]] [[[0, 0, 1, 1]]]
         (forward_pass [[[5, 5]]]) = Inr [[[0, 0, 0, 0]]]"
    by (simp add: recompute_targets_LoadProbability_def forward_pass_def tensor_defs)
  have h: "forward_pass [[[5, 5]]] ''cartesian position'' = Some [[[5, 5]]]"
    "same_shape [[[5, 5 :: real]]] [[[0, 0, 1, 1 :: real]]]" "min_width 2 [[[5, 5 :: real]]]"
    "has_width 4 [[[0, 0, 1, 1 :: real]]]"
    "same_shape [[[0, 0, 0, - 1 :: real]]] [[[0, 0, 1, 1 :: real]]]"
    "min_width 4 [[[0, 0, 0, - 1 :: real]]]"
    "(0 :: nat) < length [[[0, 0, 1, 1 :: real]]]"
    "(0 :: nat) < length ([[[0, 0, 1, 1 :: real]]] ! 0)"
    "[[[0, 0, 0, - 1 :: real]]] ! 0 ! 0 ! 3 = - 1"
    by (simp_all add: forward_pass_def same_shape_def min_width_def has_width_def)
  from recompute_targets_LoadProbability_marked[where outputs="forward_pass [[[5, 5]]]"
      and self=example_task and plant=example_plant and controller=example_controller
      and batch_size=3 and n=4 and rng=example_rng and k=2 and t=3, OF h] e c h rc
  show ?thesis
    by simp
qed

subsection \<open>Claims on the base class and on the delays\<close>

text \<open>
  C10: a task constructed with a vector as \<open>initial_joint_state\<close> holds a pool of exactly
  that one state, and for every batch size \<open>get_initial_state\<close> passes to the controller a
  batch of that many initial joint states, each of which is the vector supplied.
\<close>

theorem get_initial_state_single_vector:
  assumes "randint_outcome 1 batch_size idx"
  shows "initial_joint_state (Task_init (Some (Vector v))) = Some [v]
       \<and> n_initial_joint_states (Task_init (Some (Vector v))) = Some 1
       \<and> get_initial_state (Task_init (Some (Vector v))) controller batch_size idx
           = Inr (controller batch_size (Some (replicate batch_size v)))"
proof -
  from assms have l: "length idx = batch_size" and z: "\<forall>k\<in>set idx. k = 0"
    by (auto simp: randint_outcome_def list_all_iff)
  have "map (\<lambda>k. [v] ! k) idx = replicate (length idx) v"
    using z by (induction idx) simp_all
  with l show ?thesis
    by (simp add: Task_init_def get_initial_state_def)
qed

theorem get_initial_state_single_vector_witness:
  "randint_outcome 1 3 [0, 0, 0]
   \<and> initial_joint_state (Task_init (Some (Vector [1, 2]))) = Some [[1, 2]]
   \<and> n_initial_joint_states (Task_init (Some (Vector [1, 2]))) = Some 1
   \<and> get_initial_state (Task_init (Some (Vector [1, 2]))) example_controller 3 [0, 0, 0]
       = Inr [[[1, 2], [1, 2], [1, 2]]]"
  using get_initial_state_single_vector [of 3 "[0, 0, 0]" "[1, 2]" example_controller]
  by (simp add: randint_outcome_def example_controller_def numeral_3_eq_3)

text \<open>
  C6, as the spec states it, fails: the delay is truncated to an integer, so it can lie
  below a lower bound that is not a whole number of steps. With the bounds 10.5 and 90
  the sample 0 gives the delay 10.
\<close>

theorem delay_time_lower_bound_counterexample:
  "unit_sample 0
   \<and> generate_delay_time (21 / 2) 90 ''random'' 0 = Inr 10
   \<and> \<not> (21 / 2 \<le> real_of_int 10)"
  by (simp add: unit_sample_def generate_delay_time_def np_random_uniform_def py_int_def)

text \<open>
  C6, amended: for bounds with \<open>0 \<le> delay_min \<le> delay_max\<close> the delay of a trial lies
  between the integer truncation of \<open>delay_min\<close> and \<open>delay_max\<close>, and is not negative.
  In every batch that \<open>TaskDelayedReach.generate\<close> returns, the delay of each trial plus
  \<open>bump_length\<close> is at most \<open>n_timesteps\<close>; and for a bump length that is not negative
  the delay plus \<open>bump_length\<close> is at most the sequence length of
  \<open>TaskDelayedMultiReach\<close>.
\<close>

theorem delay_time_bounds:
  assumes "unit_sample (delay_sample rng i)"
    and "0 \<le> fst (delay_range self)" and "fst (delay_range self) \<le> snd (delay_range self)"
  shows "generate_delay_time (fst (delay_range self)) (snd (delay_range self)) ''random''
           (delay_sample rng i) = Inr (trial_delay self rng i)
       \<and> py_int (fst (delay_range self)) \<le> trial_delay self rng i
       \<and> real_of_int (trial_delay self rng i) \<le> snd (delay_range self)
       \<and> 0 \<le> trial_delay self rng i
       \<and> (generate_DelayedReach self plant controller batch_size n rng = Inr batch
            \<and> i < batch_size
          \<longrightarrow> trial_delay self rng i + bump_length self \<le> int n)
       \<and> (0 \<le> bump_length self
          \<longrightarrow> trial_delay self rng i + bump_length self
              \<le> py_int (real ((num_target self + 1) * n) + snd (delay_range self)
                         + real_of_int (bump_length self)))"
proof -
  define u where "u = np_random_uniform (fst (delay_range self)) (snd (delay_range self))
                        (delay_sample rng i)"
  have d: "trial_delay self rng i = py_int u"
    by (simp add: trial_delay_def u_def)
  from np_random_uniform_between[OF assms(1,3)]
  have u: "fst (delay_range self) \<le> u" "u \<le> snd (delay_range self)"
    by (simp_all add: u_def)
  with assms(2) have u0: "0 \<le> u" by simp
  then have f: "py_int u = \<lfloor>u\<rfloor>" by (simp add: py_int_def)
  have 1: "py_int (fst (delay_range self)) \<le> trial_delay self rng i"
    using assms(2) u(1) by (simp add: d f py_int_def floor_mono)
  have 2: "real_of_int (trial_delay self rng i) \<le> snd (delay_range self)"
    using u(2) by (simp add: d f) linarith
  have 3: "0 \<le> trial_delay self rng i"
    using u0 by (simp add: d f)
  have 4: "trial_delay self rng i + bump_length self \<le> int n"
    if "generate_DelayedReach self plant controller batch_size n rng = Inr batch
          \<and> i < batch_size"
  proof -
    obtain inputs targets init_states where b: "batch = (inputs, targets, init_states)"
      by (cases batch) auto
    from that b generate_DelayedReach_Inr(1)[of self plant controller batch_size n rng
        inputs targets init_states]
    obtain joint0 where
      "for_each (DelayedReach_body self n (joint2cartesian plant joint0) rng) [0..<batch_size]
         ([], state2target (map (joint2cartesian plant) (goal_states rng 0)) n)
       = Inr (inputs, targets)"
      by auto
    from DelayedReach_loop[OF this] that show ?thesis by simp
  qed
  have 5: "trial_delay self rng i + bump_length self
              \<le> py_int (real ((num_target self + 1) * n) + snd (delay_range self)
                         + real_of_int (bump_length self))"
    if "0 \<le> bump_length self"
  proof -
    define m where "m = int ((num_target self + 1) * n) + bump_length self"
    have m: "real ((num_target self + 1) * n) + snd (delay_range self)
               + real_of_int (bump_length self)
             = snd (delay_range self) + real_of_int m"
      by (simp add: m_def)
    have "0 \<le> m" using that by (simp add: m_def)
    with u0 u(2) have nn: "0 \<le> snd (delay_range self) + real_of_int m" by simp
    have le: "\<lfloor>u\<rfloor> \<le> \<lfloor>snd (delay_range self)\<rfloor>"
      using u(2) by (rule floor_mono)
    have bm: "bump_length self \<le> m"
      by (simp add: m_def)
    have "py_int (snd (delay_range self) + real_of_int m) = \<lfloor>snd (delay_range self)\<rfloor> + m"
      using nn by (simp only: py_int_def if_True floor_add_int)
    with le bm show ?thesis
      unfolding m d f by linarith
  qed
  from 1 2 3 4 5 show ?thesis
    by (simp add: generate_delay_time_random)
qed

theorem delay_time_bounds_witness:
  "unit_sample (delay_sample example_rng 1)
   \<and> 0 \<le> fst (delay_range example_task)
   \<and> fst (delay_range example_task) \<le> snd (delay_range example_task)
   \<and> generate_DelayedReach example_task example_plant example_controller 2 4 example_rng
     = Inr ([[[5, 6, 0], [5, 6, 3], [5, 6, 0], [5, 6, 0]],
             [[7, 8, 0], [7, 8, 0], [7, 8, 3], [7, 8, 0]]],
            [[[0, 0, 0, 0], [5, 6, 0, 0], [5, 6, 0, 0], [5, 6, 0, 0]],
             [[0, 0, 0, 0], [0, 0, 0, 0], [7, 8, 0, 0], [7, 8, 0, 0]]],
            [[[0, 0, 0, 0], [1, 1, 0, 0]]])
   \<and> (1 :: nat) < 2
   \<and> 0 \<le> bump_length example_task
   \<and> trial_delay example_task example_rng 1 = 2
   \<and> py_int (fst (delay_range example_task)) \<le> 2
   \<and> real_of_int 2 \<le> snd (delay_range example_task)
   \<and> 2 + bump_length example_task \<le> int 4
   \<and> 2 + bump_length example_task
        \<le> py_int (real ((num_target example_task + 1) * 4) + snd (delay_range example_task)
                  + real_of_int (bump_length example_task))"
proof -
  have e: "generate_DelayedReach example_task example_plant example_controller 2 4 example_rng
     = Inr ([[[5, 6, 0], [5, 6, 3], [5, 6, 0], [5, 6, 0]],
             [[7, 8, 0], [7, 8, 0], [7, 8, 3], [7, 8, 0]]],
            [[[0, 0, 0, 0], [5, 6, 0, 0], [5, 6, 0, 0], [5, 6, 0, 0]],
             [[0, 0, 0, 0], [0, 0, 0, 0], [7, 8, 0, 0], [7, 8, 0, 0]]],
            [[[0, 0, 0, 0], [1, 1, 0, 0]]])"
    by code_simp
  have h: "unit_sample (delay_sample example_rng 1)"
    "0 \<le> fst (delay_range example_task)"
    "fst (delay_range example_task) \<le> snd (delay_range example_task)"
    "0 \<le> bump_length example_task"
    "trial_delay example_task example_rng 1 = 2"
    by code_simp+
  from delay_time_bounds[OF h(1-3), of example_plant example_controller 2 4 _ ] e h
  show ?thesis
    by simp
qed


end
